theory Spec2Isabelle
  imports
    Complex_Main
    "HOL-Library.AList"
    "HOL-Library.List_Lexorder"
    "HOL-Library.Product_Lexorder"
begin

section \<open>Values of the Python runtime\<close>

subsection \<open>Strings\<close>

text \<open>
  A Python \<^verbatim>\<open>str\<close> is a sequence of Unicode code points; it is modelled as the list of
  their numbers. Strings are compared and ordered code point by code point, as Python
  does. \<open>ascii\<close> turns a literal of the theory into such a list.
\<close>

type_synonym pystr = "nat list"

definition ascii :: "string \<Rightarrow> pystr" where
  "ascii s = map of_char s"

text \<open>
  \<^verbatim>\<open>str.strip()\<close>: leading and trailing whitespace removed. The whitespace characters are
  the code points for which \<^verbatim>\<open>str.isspace\<close> holds.
\<close>

definition is_space :: "nat \<Rightarrow> bool" where
  "is_space c =
     ((9 \<le> c \<and> c \<le> 13) \<or> (28 \<le> c \<and> c \<le> 32) \<or> c = 133 \<or> c = 160 \<or> c = 5760 \<or>
      (8192 \<le> c \<and> c \<le> 8202) \<or> c = 8232 \<or> c = 8233 \<or> c = 8239 \<or> c = 8287 \<or> c = 12288)"

definition strip :: "pystr \<Rightarrow> pystr" where
  "strip s = rev (dropWhile is_space (rev (dropWhile is_space s)))"

text \<open>\<^verbatim>\<open>sep.join(xs)\<close>.\<close>

fun py_join :: "pystr \<Rightarrow> pystr list \<Rightarrow> pystr" where
  "py_join sep [] = []"
| "py_join sep [x] = x"
| "py_join sep (x # y # xs) = x @ sep @ py_join sep (y # xs)"

text \<open>Decimal rendering of a natural number, as an f-string renders an \<^verbatim>\<open>int\<close>.\<close>

function str_nat :: "nat \<Rightarrow> pystr" where
  "str_nat n = (if n < 10 then [48 + n] else str_nat (n div 10) @ [48 + n mod 10])"
  by pat_completeness auto
termination
  by (relation "measure id") auto

declare str_nat.simps [simp del]

subsection \<open>Floats\<close>

text \<open>
  A Python \<^verbatim>\<open>float\<close> is an IEEE double: a finite number, an infinity or NaN. Finite
  doubles are modelled by the real numbers they denote, \<open>Fin r\<close> with \<open>\<bar>r\<bar> < float_limit\<close>;
  the rounding of a finite result to the nearest double is not modelled. A result of
  magnitude \<open>float_limit\<close> or more (the least magnitude that rounds beyond the largest
  double) overflows to an infinity. Comparisons with NaN are false.
\<close>

datatype pyfloat = Fin real | PInf | NInf | NaN

definition float_limit :: real where
  "float_limit = 2 ^ 1024 - 2 ^ 970"

definition round_overflow :: "real \<Rightarrow> pyfloat" where
  "round_overflow r =
     (if float_limit \<le> r then PInf else if r \<le> - float_limit then NInf else Fin r)"

text \<open>\<^verbatim>\<open>a < b\<close> and \<^verbatim>\<open>a <= b\<close> on floats.\<close>

fun f_lt :: "pyfloat \<Rightarrow> pyfloat \<Rightarrow> bool" where
  "f_lt (Fin x) (Fin y) = (x < y)"
| "f_lt (Fin x) PInf = True"
| "f_lt NInf (Fin y) = True"
| "f_lt NInf PInf = True"
| "f_lt _ _ = False"

fun f_le :: "pyfloat \<Rightarrow> pyfloat \<Rightarrow> bool" where
  "f_le NaN _ = False"
| "f_le _ NaN = False"
| "f_le NInf _ = True"
| "f_le _ PInf = True"
| "f_le (Fin x) (Fin y) = (x \<le> y)"
| "f_le _ _ = False"

text \<open>\<^verbatim>\<open>a + b\<close> on floats.\<close>

fun f_add :: "pyfloat \<Rightarrow> pyfloat \<Rightarrow> pyfloat" where
  "f_add NaN _ = NaN"
| "f_add _ NaN = NaN"
| "f_add PInf NInf = NaN"
| "f_add NInf PInf = NaN"
| "f_add PInf _ = PInf"
| "f_add _ PInf = PInf"
| "f_add NInf _ = NInf"
| "f_add _ NInf = NInf"
| "f_add (Fin x) (Fin y) = round_overflow (x + y)"

datatype py_error = TypeError | ValueError | ZeroDivisionError | OverflowError

text \<open>
  \<^verbatim>\<open>a / b\<close> on floats: a zero divisor raises, whatever the dividend; otherwise the IEEE
  quotient.
\<close>

fun f_quot :: "pyfloat \<Rightarrow> pyfloat \<Rightarrow> pyfloat" where
  "f_quot NaN _ = NaN"
| "f_quot _ NaN = NaN"
| "f_quot (Fin x) (Fin y) = round_overflow (x / y)"
| "f_quot (Fin x) _ = Fin 0"
| "f_quot PInf (Fin y) = (if 0 < y then PInf else NInf)"
| "f_quot NInf (Fin y) = (if 0 < y then NInf else PInf)"
| "f_quot _ _ = NaN"

definition py_fdiv :: "pyfloat \<Rightarrow> pyfloat \<Rightarrow> py_error + pyfloat" where
  "py_fdiv a b = (if b = Fin 0 then Inl ZeroDivisionError else Inr (f_quot a b))"

text \<open>
  The same on two finite doubles whose quotient cannot overflow, kept as real numbers:
  used where both operands are event counts.
\<close>

definition py_div :: "real \<Rightarrow> real \<Rightarrow> py_error + real" where
  "py_div a b = (if b = 0 then Inl ZeroDivisionError else Inr (a / b))"

text \<open>\<^verbatim>\<open>max(1.0, x)\<close>: the second argument is returned only when it is greater than the first.\<close>

definition py_max1 :: "pyfloat \<Rightarrow> pyfloat" where
  "py_max1 x = (if f_lt (Fin 1) x then x else Fin 1)"

text \<open>\<^verbatim>\<open>float(n)\<close> of an \<^verbatim>\<open>int\<close>: raises when the integer is beyond the range of a double.\<close>

definition float_of_int :: "int \<Rightarrow> py_error + pyfloat" where
  "float_of_int n =
     (if \<bar>real_of_int n\<bar> < float_limit then Inr (Fin (real_of_int n)) else Inl OverflowError)"

text \<open>\<^verbatim>\<open>int(x)\<close> on a finite float truncates towards zero.\<close>

definition py_trunc :: "real \<Rightarrow> int" where
  "py_trunc r = (if 0 \<le> r then \<lfloor>r\<rfloor> else \<lceil>r\<rceil>)"

subsection \<open>Parsed JSON\<close>

text \<open>
  Both scripts work on what \<^verbatim>\<open>json.loads\<close> returns: \<^verbatim>\<open>None\<close>, a \<^verbatim>\<open>bool\<close>, an \<^verbatim>\<open>int\<close>, a
  \<^verbatim>\<open>float\<close> (\<^verbatim>\<open>json.loads\<close> also reads \<^verbatim>\<open>NaN\<close>, \<^verbatim>\<open>Infinity\<close> and \<^verbatim>\<open>-Infinity\<close>), a \<^verbatim>\<open>str\<close>, a
  \<^verbatim>\<open>list\<close> or a \<^verbatim>\<open>dict\<close>. A dict is kept as the association list of its items in insertion
  order; a parsed dict has each key once.
\<close>

datatype json =
    JNull
  | JBool bool
  | JInt int
  | JFloat pyfloat
  | JStr pystr
  | JList "json list"
  | JDict "(pystr \<times> json) list"

type_synonym pydict = "(pystr \<times> json) list"

text \<open>\<^verbatim>\<open>d.get(k)\<close>: the value stored under \<open>k\<close>, and \<^verbatim>\<open>None\<close> when the key is absent.\<close>

definition py_get :: "pydict \<Rightarrow> pystr \<Rightarrow> json" where
  "py_get d k = (case map_of d k of Some v \<Rightarrow> v | None \<Rightarrow> JNull)"

text \<open>\<^verbatim>\<open>d.get(k, default)\<close>.\<close>

definition py_get_default :: "pydict \<Rightarrow> pystr \<Rightarrow> json \<Rightarrow> json" where
  "py_get_default d k dflt = (case map_of d k of Some v \<Rightarrow> v | None \<Rightarrow> dflt)"

text \<open>
  \<^verbatim>\<open>isinstance(v, (int, float))\<close>. Python's \<^verbatim>\<open>bool\<close> is a subclass of \<^verbatim>\<open>int\<close>, so \<^verbatim>\<open>True\<close>
  and \<^verbatim>\<open>False\<close> pass the test.
\<close>

fun is_number :: "json \<Rightarrow> bool" where
  "is_number (JInt n) = True"
| "is_number (JFloat x) = True"
| "is_number (JBool b) = True"
| "is_number _ = False"

text \<open>
  \<^verbatim>\<open>v < c\<close> for a number \<open>v\<close> and an \<^verbatim>\<open>int\<close> \<open>c\<close>. Python compares an \<^verbatim>\<open>int\<close> and a \<^verbatim>\<open>float\<close>
  by their exact values; \<^verbatim>\<open>True\<close> and \<^verbatim>\<open>False\<close> are 1 and 0.
\<close>

fun py_lt_int :: "json \<Rightarrow> int \<Rightarrow> bool" where
  "py_lt_int (JInt n) c = (n < c)"
| "py_lt_int (JBool b) c = ((if b then 1 else 0) < c)"
| "py_lt_int (JFloat (Fin r)) c = (r < real_of_int c)"
| "py_lt_int (JFloat NInf) c = True"
| "py_lt_int _ c = False"

text \<open>Truthiness, as \<^verbatim>\<open>or\<close> and \<^verbatim>\<open>if\<close> test it.\<close>

fun truthy :: "json \<Rightarrow> bool" where
  "truthy JNull = False"
| "truthy (JBool b) = b"
| "truthy (JInt n) = (n \<noteq> 0)"
| "truthy (JFloat x) = (x \<noteq> Fin 0)"
| "truthy (JStr s) = (s \<noteq> [])"
| "truthy (JList xs) = (xs \<noteq> [])"
| "truthy (JDict kvs) = (kvs \<noteq> [])"

text \<open>\<^verbatim>\<open>a or b\<close>.\<close>

definition py_or :: "json \<Rightarrow> json \<Rightarrow> json" where
  "py_or a b = (if truthy a then a else b)"

text \<open>
  The conversions \<^verbatim>\<open>int(s)\<close>, \<^verbatim>\<open>float(s)\<close> of a string and \<^verbatim>\<open>str(v)\<close> of a value that is
  not a string are Python built-ins whose text formats are not part of the scripts; they
  are parameters of the model. A parser returns \<open>None\<close> where Python raises
  \<^verbatim>\<open>ValueError\<close>.
\<close>

record builtins =
  int_of_str :: "pystr \<Rightarrow> int option"
  float_of_str :: "pystr \<Rightarrow> pyfloat option"
  str_of :: "json \<Rightarrow> pystr"

text \<open>\<^verbatim>\<open>int(v)\<close>.\<close>

fun py_int :: "builtins \<Rightarrow> json \<Rightarrow> py_error + int" where
  "py_int rt (JInt n) = Inr n"
| "py_int rt (JBool b) = Inr (if b then 1 else 0)"
| "py_int rt (JFloat (Fin r)) = Inr (py_trunc r)"
| "py_int rt (JFloat NaN) = Inl ValueError"
| "py_int rt (JFloat _) = Inl OverflowError"
| "py_int rt (JStr s) = (case int_of_str rt s of Some n \<Rightarrow> Inr n | None \<Rightarrow> Inl ValueError)"
| "py_int rt _ = Inl TypeError"

text \<open>\<^verbatim>\<open>float(v)\<close>.\<close>

fun py_float :: "builtins \<Rightarrow> json \<Rightarrow> py_error + pyfloat" where
  "py_float rt (JFloat x) = Inr x"
| "py_float rt (JInt n) = float_of_int n"
| "py_float rt (JBool b) = Inr (Fin (if b then 1 else 0))"
| "py_float rt (JStr s) = (case float_of_str rt s of Some x \<Rightarrow> Inr x | None \<Rightarrow> Inl ValueError)"
| "py_float rt _ = Inl TypeError"

text \<open>\<^verbatim>\<open>str(v)\<close>.\<close>

fun py_str :: "builtins \<Rightarrow> json \<Rightarrow> pystr" where
  "py_str rt (JStr s) = s"
| "py_str rt v = str_of rt v"

subsection \<open>Exceptions\<close>

text \<open>Sequencing of computations that may raise: the first error ends the computation.\<close>

definition bind_err :: "'e + 'a \<Rightarrow> ('a \<Rightarrow> 'e + 'b) \<Rightarrow> 'e + 'b" where
  "bind_err m f = (case m of Inl e \<Rightarrow> Inl e | Inr x \<Rightarrow> f x)"

fun map_err :: "('a \<Rightarrow> 'e + 'b) \<Rightarrow> 'a list \<Rightarrow> 'e + 'b list" where
  "map_err f [] = Inr []"
| "map_err f (x # xs) =
     bind_err (f x) (\<lambda>y. bind_err (map_err f xs) (\<lambda>ys. Inr (y # ys)))"

text \<open>A loop whose body may raise: the state is threaded through the elements in order.\<close>

fun fold_err :: "('s \<Rightarrow> 'a \<Rightarrow> 'e + 's) \<Rightarrow> 's \<Rightarrow> 'a list \<Rightarrow> 'e + 's" where
  "fold_err f s [] = Inr s"
| "fold_err f s (x # xs) = bind_err (f s x) (\<lambda>s'. fold_err f s' xs)"


section \<open>Observer: \<^verbatim>\<open>context_strategy_observer.py\<close>\<close>

definition UNKNOWN_MODEL :: pystr where
  "UNKNOWN_MODEL = ascii ''(unknown)''"

definition NONE_TASK_CLASS :: pystr where
  "NONE_TASK_CLASS = ascii ''(none)''"

subsection \<open>\<^verbatim>\<open>session_bucket\<close>\<close>

text \<open>
  The guarded assignment of one label in the body of the \<^verbatim>\<open>for\<close> loop: the candidate
  replaces the label when it is a string that is not empty after trimming.
\<close>

definition label_candidate :: "pydict \<Rightarrow> pystr \<Rightarrow> pystr \<Rightarrow> pystr" where
  "label_candidate payload key current =
     (case py_get payload key of
        JStr candidate \<Rightarrow> if strip candidate \<noteq> [] then strip candidate else current
      | _ \<Rightarrow> current)"

text \<open>
  The loop over \<^verbatim>\<open>reversed(events)\<close>, on the events still to be visited and the two labels.
  An event whose payload is not a dict is skipped (\<^verbatim>\<open>continue\<close>); the loop ends
  (\<^verbatim>\<open>break\<close>) once neither label equals its sentinel.
\<close>

fun session_scan :: "pydict list \<Rightarrow> pystr \<times> pystr \<Rightarrow> pystr \<times> pystr" where
  "session_scan [] (model, task_class) = (model, task_class)"
| "session_scan (event # rest) (model, task_class) =
     (case py_get event (ascii ''payload'') of
        JDict payload \<Rightarrow>
          (let event_type = py_get event (ascii ''type'');
               model' = (if model = UNKNOWN_MODEL \<and> event_type = JStr (ascii ''cost_update'')
                         then label_candidate payload (ascii ''model'') model else model);
               task_class' = (if task_class = NONE_TASK_CLASS \<and> event_type = JStr (ascii ''skill_activated'')
                              then label_candidate payload (ascii ''skillName'') task_class else task_class)
           in if model' \<noteq> UNKNOWN_MODEL \<and> task_class' \<noteq> NONE_TASK_CLASS
              then (model', task_class')
              else session_scan rest (model', task_class'))
      | _ \<Rightarrow> session_scan rest (model, task_class))"

definition session_bucket :: "pydict list \<Rightarrow> pystr \<times> pystr" where
  "session_bucket events = session_scan (rev events) (UNKNOWN_MODEL, NONE_TASK_CLASS)"

subsection \<open>\<^verbatim>\<open>as_number\<close>\<close>

text \<open>
  \<^verbatim>\<open>float(value)\<close> when the value passes \<^verbatim>\<open>isinstance(value, (int, float))\<close>, and the
  default \<open>0.0\<close> otherwise. The conversion of an \<^verbatim>\<open>int\<close> beyond the double range raises.
\<close>

fun as_number :: "json \<Rightarrow> py_error + pyfloat" where
  "as_number (JInt n) = float_of_int n"
| "as_number (JFloat x) = Inr x"
| "as_number (JBool b) = Inr (Fin (if b then 1 else 0))"
| "as_number _ = Inr (Fin 0)"

subsection \<open>\<^verbatim>\<open>build_report\<close>: accumulation\<close>

text \<open>
  The counters of one bucket; the factory of the \<^verbatim>\<open>defaultdict\<close> sets all to \<open>0.0\<close>. All
  nine are Python floats. The seven event counts start at \<open>0.0\<close> and only ever receive
  \<^verbatim>\<open>+= 1\<close>, so they hold finite values and are kept as real numbers; the two token sums
  receive numbers of the payloads and can be infinite or NaN.
\<close>

record bucket =
  plans :: real
  floor_unmet :: real
  dropped :: real
  injected_tokens_sum :: pyfloat
  injected_count :: real
  zone_moves :: real
  zone_move_tokens :: pyfloat
  verification_total :: real
  verification_pass :: real

definition zero_bucket :: bucket where
  "zero_bucket = \<lparr> plans = 0, floor_unmet = 0, dropped = 0, injected_tokens_sum = Fin 0,
     injected_count = 0, zone_moves = 0, zone_move_tokens = Fin 0,
     verification_total = 0, verification_pass = 0 \<rparr>"

text \<open>
  The time test at the head of the inner loop: the event is skipped when its timestamp
  fails \<^verbatim>\<open>isinstance(timestamp, (int, float))\<close> or \<^verbatim>\<open>timestamp < cutoff_ms\<close> holds, and
  counted otherwise. The cutoff is computed from the wall clock in the source and is an
  argument here.
\<close>

definition in_window :: "int \<Rightarrow> pydict \<Rightarrow> bool" where
  "in_window cutoff_ms event =
     (let timestamp = py_get event (ascii ''timestamp'')
      in \<not> (\<not> is_number timestamp \<or> py_lt_int timestamp cutoff_ms))"

text \<open>The \<^verbatim>\<open>if\<close>/\<^verbatim>\<open>elif\<close> chain on the event type, for an event that passed the time test.\<close>

definition apply_event :: "bucket \<Rightarrow> pydict \<Rightarrow> py_error + bucket" where
  "apply_event b event =
     (let event_type = py_get event (ascii ''type'');
          payload = (case py_get event (ascii ''payload'') of JDict p \<Rightarrow> p | _ \<Rightarrow> [])
      in if event_type = JStr (ascii ''context_injected'') then
           bind_err (as_number (py_get payload (ascii ''sourceTokens''))) (\<lambda>tokens.
             Inr (b\<lparr> plans := plans b + 1,
                     injected_count := injected_count b + 1,
                     injected_tokens_sum := f_add (injected_tokens_sum b) tokens \<rparr>))
         else if event_type = JStr (ascii ''context_injection_dropped'') then
           (if py_get payload (ascii ''reason'') \<noteq> JStr (ascii ''duplicate_content'')
            then Inr (b\<lparr> plans := plans b + 1, dropped := dropped b + 1 \<rparr>)
            else Inr b)
         else if event_type = JStr (ascii ''context_arena_floor_unmet_unrecoverable'') then
           Inr (b\<lparr> floor_unmet := floor_unmet b + 1 \<rparr>)
         else if event_type = JStr (ascii ''context_arena_zone_adapted'') then
           bind_err (as_number (py_get payload (ascii ''movedTokens''))) (\<lambda>tokens.
             Inr (b\<lparr> zone_moves := zone_moves b + 1,
                     zone_move_tokens := f_add (zone_move_tokens b) tokens \<rparr>))
         else if event_type = JStr (ascii ''verification_outcome_recorded'') then
           (if py_get payload (ascii ''outcome'') = JStr (ascii ''pass'')
            then Inr (b\<lparr> verification_total := verification_total b + 1,
                         verification_pass := verification_pass b + 1 \<rparr>)
            else Inr (b\<lparr> verification_total := verification_total b + 1 \<rparr>))
         else Inr b)"

definition count_event :: "int \<Rightarrow> bucket \<Rightarrow> pydict \<Rightarrow> py_error + bucket" where
  "count_event cutoff_ms b event =
     (if in_window cutoff_ms event then apply_event b event else Inr b)"

text \<open>The inner loop over the events of one file.\<close>

definition count_events :: "int \<Rightarrow> bucket \<Rightarrow> pydict list \<Rightarrow> py_error + bucket" where
  "count_events cutoff_ms b events = fold_err (count_event cutoff_ms) b events"

text \<open>
  One iteration of the loop over the event files. \<open>grouped\<close> is the \<^verbatim>\<open>defaultdict\<close>, as
  the list of its items in insertion order; reading \<^verbatim>\<open>grouped[key]\<close> inserts a zeroed
  bucket when the key is new, and the inner loop then updates that bucket in place. An
  exception ends the whole run.
\<close>

type_synonym grouped = "((pystr \<times> pystr) \<times> bucket) list"

definition process_file :: "int \<Rightarrow> grouped \<Rightarrow> pydict list \<Rightarrow> py_error + grouped" where
  "process_file cutoff_ms grouped events =
     (if events = [] then Inr grouped
      else
        (let key = session_bucket events;
             b = (case map_of grouped key of Some b \<Rightarrow> b | None \<Rightarrow> zero_bucket)
         in bind_err (count_events cutoff_ms b events) (\<lambda>b'.
              Inr (AList.update key b' grouped))))"

definition accumulate :: "int \<Rightarrow> pydict list list \<Rightarrow> py_error + grouped" where
  "accumulate cutoff_ms files = fold_err (process_file cutoff_ms) [] files"

subsection \<open>\<^verbatim>\<open>build_report\<close>: rates, report and summary\<close>

text \<open>
  The six derived values of one bucket, computed in the order of the source. The
  quotients of two event counts are finite; the two that involve a token sum are floats.
\<close>

record rates =
  floor_unmet_rate :: real
  dropped_rate :: real
  avg_injection_tokens :: pyfloat
  zone_move_ratio :: pyfloat
  verification_pass_rate :: real
  quality_proxy :: real

definition compute_rates :: "bucket \<Rightarrow> py_error + rates" where
  "compute_rates values =
     (let plans1 = max 1 (plans values);
          injected_count1 = max 1 (injected_count values);
          verification_total1 = max 1 (verification_total values)
      in bind_err (py_div (floor_unmet values) plans1) (\<lambda>floor_unmet_rate1.
         bind_err (py_div (dropped values) plans1) (\<lambda>dropped_rate1.
         bind_err (py_fdiv (injected_tokens_sum values) (Fin injected_count1)) (\<lambda>avg_injection_tokens1.
         bind_err (py_fdiv (zone_move_tokens values) (py_max1 (injected_tokens_sum values))) (\<lambda>zone_move_ratio1.
         bind_err (py_div (verification_pass values) verification_total1) (\<lambda>verification_pass_rate1.
         Inr \<lparr> floor_unmet_rate = floor_unmet_rate1,
               dropped_rate = dropped_rate1,
               avg_injection_tokens = avg_injection_tokens1,
               zone_move_ratio = zone_move_ratio1,
               verification_pass_rate = verification_pass_rate1,
               quality_proxy = verification_pass_rate1 * (1 - dropped_rate1) \<rparr>))))))"

text \<open>
  The table section of one bucket in the markdown report. \<open>fmt k x\<close> stands for Python's
  rendering of the float \<open>x\<close> to \<open>k\<close> decimal places.
\<close>

definition section_lines :: "(nat \<Rightarrow> pyfloat \<Rightarrow> pystr) \<Rightarrow> pystr \<times> pystr \<Rightarrow> rates \<Rightarrow> pystr list" where
  "section_lines fmt key r =
     [ascii ''## Model: '' @ fst key @ ascii '' | Task: '' @ snd key,
      [],
      ascii ''| Metric | Value |'',
      ascii ''|---|---:|'',
      ascii ''| floor_unmet_rate | '' @ fmt 4 (Fin (floor_unmet_rate r)) @ ascii '' |'',
      ascii ''| injection_dropped_rate | '' @ fmt 4 (Fin (dropped_rate r)) @ ascii '' |'',
      ascii ''| avg_injection_tokens | '' @ fmt 1 (avg_injection_tokens r) @ ascii '' |'',
      ascii ''| zone_adaptation_move_ratio | '' @ fmt 4 (zone_move_ratio r) @ ascii '' |'',
      ascii ''| verification_pass_rate | '' @ fmt 4 (Fin (verification_pass_rate r)) @ ascii '' |'',
      ascii ''| quality_proxy | '' @ fmt 4 (Fin (quality_proxy r)) @ ascii '' |'',
      []]"

text \<open>The entry of one bucket in the \<^verbatim>\<open>buckets\<close> list of the summary document.\<close>

definition bucket_json :: "pystr \<times> pystr \<Rightarrow> bucket \<Rightarrow> rates \<Rightarrow> json" where
  "bucket_json key values r =
     JDict [(ascii ''model'', JStr (fst key)),
            (ascii ''taskClass'', JStr (snd key)),
            (ascii ''floorUnmetRate'', JFloat (Fin (floor_unmet_rate r))),
            (ascii ''injectionDroppedRate'', JFloat (Fin (dropped_rate r))),
            (ascii ''avgInjectionTokens'', JFloat (avg_injection_tokens r)),
            (ascii ''zoneAdaptationMoveRatio'', JFloat (zone_move_ratio r)),
            (ascii ''verificationPassRate'', JFloat (Fin (verification_pass_rate r))),
            (ascii ''qualityProxy'', JFloat (Fin (quality_proxy r))),
            (ascii ''samples'',
               JDict [(ascii ''plans'', JInt (py_trunc (plans values))),
                      (ascii ''verification'', JInt (py_trunc (verification_total values)))])]"

definition summary_payload :: "pystr \<Rightarrow> int \<Rightarrow> json list \<Rightarrow> json" where
  "summary_payload today lookback_days buckets =
     JDict [(ascii ''generatedAt'', JStr today), (ascii ''lookbackDays'', JInt lookback_days),
            (ascii ''buckets'', JList buckets)]"

definition newline :: pystr where
  "newline = [10]"

text \<open>
  \<^verbatim>\<open>build_report\<close>. The directory scan and the line parser \<^verbatim>\<open>read_jsonl\<close> are input and
  output: \<open>files\<close> is \<open>None\<close> when the events directory does not exist, and otherwise the
  rows \<^verbatim>\<open>read_jsonl\<close> returned for each \<^verbatim>\<open>*.jsonl\<close> file, in sorted path order (each row a
  dict). \<open>today\<close> and \<open>cutoff_ms\<close> come from the clock.
\<close>

definition build_report ::
  "(nat \<Rightarrow> pyfloat \<Rightarrow> pystr) \<Rightarrow> pystr \<Rightarrow> int \<Rightarrow> int \<Rightarrow> pydict list list option \<Rightarrow> py_error + (pystr \<times> json)" where
  "build_report fmt today lookback_days cutoff_ms files =
     (case files of
        None \<Rightarrow>
          Inr (ascii ''# Context Strategy Report'' @ newline @ newline @ ascii ''No event files found.'' @ newline,
               JDict [])
      | Some fs \<Rightarrow>
          bind_err (accumulate cutoff_ms fs) (\<lambda>grouped.
            (let lines = [ascii ''# Context Strategy Report ('' @ today @ ascii '')'', []]
             in if grouped = [] then
                  Inr (py_join newline
                         (lines @ [ascii ''No context strategy signals in the lookback window.'']) @ newline,
                       summary_payload today lookback_days [])
                else
                  bind_err
                    (map_err (\<lambda>(key, values). bind_err (compute_rates values) (\<lambda>r. Inr (key, values, r)))
                       (sort_key fst grouped))
                    (\<lambda>rows.
                       Inr (py_join newline
                              (lines @ concat (map (\<lambda>(key, values, r). section_lines fmt key r) rows)) @ newline,
                            summary_payload today lookback_days
                              (map (\<lambda>(key, values, r). bucket_json key values r) rows))))))"


section \<open>Tuner: \<^verbatim>\<open>context_strategy_tuner.py\<close>\<close>

text \<open>
  \<^verbatim>\<open>load_json\<close>. Reading and parsing the file is input: the argument is \<open>None\<close> when
  \<^verbatim>\<open>read_text\<close> or \<^verbatim>\<open>json.loads\<close> raised, and the parsed value otherwise.
\<close>

definition load_json :: "json option \<Rightarrow> pydict" where
  "load_json raw = (case raw of Some (JDict d) \<Rightarrow> d | _ \<Rightarrow> [])"

text \<open>
  The float literals of the thresholds denote the doubles nearest to the decimal numbers
  written in the source; these are their exact values. The comparisons of
  \<^verbatim>\<open>choose_arm\<close> involve no rounding.
\<close>

definition double_0_92 :: real where
  "double_0_92 = 8286623314361713 / 2 ^ 53"

definition double_0_88 :: real where
  "double_0_88 = 7926335344172073 / 2 ^ 53"

definition double_0_01 :: real where
  "double_0_01 = 5764607523034235 / 2 ^ 59"

definition double_0_05 :: real where
  "double_0_05 = 3602879701896397 / 2 ^ 56"

definition double_0_08 :: real where
  "double_0_08 = 5764607523034235 / 2 ^ 56"

definition double_0_02 :: real where
  "double_0_02 = 5764607523034235 / 2 ^ 58"

definition choose_arm :: "builtins \<Rightarrow> pydict \<Rightarrow> py_error + pystr" where
  "choose_arm rt bucket =
     bind_err (py_float rt (py_get_default bucket (ascii ''floorUnmetRate'') (JFloat (Fin 0)))) (\<lambda>floor_unmet1.
     bind_err (py_float rt (py_get_default bucket (ascii ''injectionDroppedRate'') (JFloat (Fin 0)))) (\<lambda>dropped1.
     bind_err (py_float rt (py_get_default bucket (ascii ''qualityProxy'') (JFloat (Fin 0)))) (\<lambda>quality.
     bind_err (py_float rt (py_get_default bucket (ascii ''zoneAdaptationMoveRatio'') (JFloat (Fin 0)))) (\<lambda>zone_ratio.
       if f_le (Fin double_0_92) quality \<and> f_le floor_unmet1 (Fin double_0_01)
          \<and> f_le dropped1 (Fin double_0_08) \<and> f_le zone_ratio (Fin double_0_02)
       then Inr (ascii ''passthrough'')
       else if f_le (Fin double_0_88) quality \<and> f_le floor_unmet1 (Fin double_0_05)
       then Inr (ascii ''hybrid'')
       else Inr (ascii ''managed'')))))"

record override_entry =
  oe_id :: pystr
  oe_model :: pystr
  oe_taskClass :: pystr
  oe_arm :: pystr
  oe_expiresAt :: int
  oe_updatedAt :: int
  oe_source :: pystr

record overrides =
  version :: int
  generatedAt :: int
  entries :: "override_entry list"

text \<open>
  The sample count the loop of \<^verbatim>\<open>build_overrides\<close> reads from one bucket:
  \<^verbatim>\<open>int(samples.get("plans", 0) or 0)\<close> when \<^verbatim>\<open>samples\<close> is a dict, and 0 otherwise.
\<close>

definition bucket_plans :: "builtins \<Rightarrow> pydict \<Rightarrow> py_error + int" where
  "bucket_plans rt bucket =
     (case py_get bucket (ascii ''samples'') of
        JDict samples \<Rightarrow> py_int rt (py_or (py_get_default samples (ascii ''plans'') (JInt 0)) (JInt 0))
      | _ \<Rightarrow> Inr 0)"

text \<open>\<^verbatim>\<open>str(bucket.get(key, "*")).strip() or "*"\<close>.\<close>

definition wildcard_label :: "builtins \<Rightarrow> pydict \<Rightarrow> pystr \<Rightarrow> pystr" where
  "wildcard_label rt bucket key =
     (let s = strip (py_str rt (py_get_default bucket key (JStr (ascii ''*''))))
      in if s = [] then ascii ''*'' else s)"

text \<open>
  The loop over \<^verbatim>\<open>enumerate(buckets)\<close>, from position \<open>index\<close> on: the entries appended for
  the remaining buckets, or the first error raised.
\<close>

fun override_entries :: "builtins \<Rightarrow> int \<Rightarrow> int \<Rightarrow> nat \<Rightarrow> json list \<Rightarrow> py_error + override_entry list" where
  "override_entries rt now expires_at index [] = Inr []"
| "override_entries rt now expires_at index (JDict bucket # rest) =
     bind_err (bucket_plans rt bucket) (\<lambda>plans1.
       if plans1 < 20 then override_entries rt now expires_at (index + 1) rest
       else
         (let model = wildcard_label rt bucket (ascii ''model'');
              task_class = wildcard_label rt bucket (ascii ''taskClass'')
          in bind_err (choose_arm rt bucket) (\<lambda>arm.
             bind_err (override_entries rt now expires_at (index + 1) rest) (\<lambda>more.
               Inr (\<lparr> oe_id = ascii ''auto-'' @ str_nat (index + 1),
                      oe_model = model,
                      oe_taskClass = task_class,
                      oe_arm = arm,
                      oe_expiresAt = expires_at,
                      oe_updatedAt = now,
                      oe_source = ascii ''tuner'' \<rparr> # more)))))"
| "override_entries rt now expires_at index (_ # rest) =
     override_entries rt now expires_at (index + 1) rest"

text \<open>\<^verbatim>\<open>build_overrides\<close>; \<open>now\<close> is the clock reading in milliseconds.\<close>

definition build_overrides :: "builtins \<Rightarrow> pydict \<Rightarrow> int \<Rightarrow> int \<Rightarrow> py_error + overrides" where
  "build_overrides rt summary ttl_hours now =
     (let expires_at = now + max 1 ttl_hours * 60 * 60 * 1000;
          buckets = (case py_get summary (ascii ''buckets'') of JList bs \<Rightarrow> bs | _ \<Rightarrow> [])
      in bind_err (override_entries rt now expires_at 0 buckets) (\<lambda>es.
           Inr \<lparr> version = 1, generatedAt = now, entries = es \<rparr>))"


section \<open>Definitions used in the statements\<close>

text \<open>The formulas of the Rate Calculator as the specification writes them.\<close>

definition spec_rates :: "bucket \<Rightarrow> rates" where
  "spec_rates v =
     \<lparr> floor_unmet_rate = floor_unmet v / max 1 (plans v),
       dropped_rate = dropped v / max 1 (plans v),
       avg_injection_tokens = f_quot (injected_tokens_sum v) (Fin (max 1 (injected_count v))),
       zone_move_ratio = f_quot (zone_move_tokens v) (py_max1 (injected_tokens_sum v)),
       verification_pass_rate = verification_pass v / max 1 (verification_total v),
       quality_proxy =
         (verification_pass v / max 1 (verification_total v)) * (1 - dropped v / max 1 (plans v)) \<rparr>"

text \<open>A finite double that is not negative.\<close>

definition finite_nonneg :: "pyfloat \<Rightarrow> bool" where
  "finite_nonneg x = (case x of Fin r \<Rightarrow> 0 \<le> r \<and> r < float_limit | _ \<Rightarrow> False)"

definition finite_nonneg_counters :: "bucket \<Rightarrow> bool" where
  "finite_nonneg_counters b =
     (0 \<le> plans b \<and> 0 \<le> floor_unmet b \<and> 0 \<le> dropped b \<and> finite_nonneg (injected_tokens_sum b) \<and>
      0 \<le> injected_count b \<and> 0 \<le> zone_moves b \<and> finite_nonneg (zone_move_tokens b) \<and>
      0 \<le> verification_total b \<and> 0 \<le> verification_pass b)"

text \<open>What every step of the accumulator keeps true of the counters it only ever raises by one.\<close>

definition strong_inv :: "bucket \<Rightarrow> bool" where
  "strong_inv b =
     (0 \<le> dropped b \<and> dropped b \<le> plans b \<and> 0 \<le> injected_count b \<and> injected_count b \<le> plans b \<and>
      0 \<le> verification_pass b \<and> verification_pass b \<le> verification_total b)"

text \<open>
  Session attribution in the words of the specification. \<open>event_label ty key e\<close> is the
  label an event offers: the trimmed string under \<open>key\<close> in its payload, when the event has
  type \<open>ty\<close>, its payload is a mapping and the trimmed string is not empty.
\<close>

definition event_label :: "pystr \<Rightarrow> pystr \<Rightarrow> pydict \<Rightarrow> pystr option" where
  "event_label ty key event =
     (case py_get event (ascii ''payload'') of
        JDict payload \<Rightarrow>
          (if py_get event (ascii ''type'') = JStr ty
           then (case py_get payload key of
                   JStr candidate \<Rightarrow> if strip candidate \<noteq> [] then Some (strip candidate) else None
                 | _ \<Rightarrow> None)
           else None)
      | _ \<Rightarrow> None)"

text \<open>The label of the most recent event that offers one, and the sentinel when none does.\<close>

definition latest_label :: "pystr \<Rightarrow> pystr \<Rightarrow> pystr \<Rightarrow> pydict list \<Rightarrow> pystr" where
  "latest_label ty key sentinel events =
     (case List.map_filter (event_label ty key) (rev events) of
        [] \<Rightarrow> sentinel
      | l # _ \<Rightarrow> l)"

text \<open>
  The same, over the events whose label differs from the sentinel: the loop tests
  \<^verbatim>\<open>model == UNKNOWN_MODEL\<close> to see whether a label is still unresolved, so a label equal to
  the sentinel resolves nothing.
\<close>

definition latest_resolving_label :: "pystr \<Rightarrow> pystr \<Rightarrow> pystr \<Rightarrow> pydict list \<Rightarrow> pystr" where
  "latest_resolving_label ty key sentinel events =
     (case filter (\<lambda>l. l \<noteq> sentinel) (List.map_filter (event_label ty key) (rev events)) of
        [] \<Rightarrow> sentinel
      | l # _ \<Rightarrow> l)"

text \<open>The loop of \<^verbatim>\<open>session_bucket\<close> without its \<^verbatim>\<open>break\<close>: every event is visited.\<close>

fun session_scan_full :: "pydict list \<Rightarrow> pystr \<times> pystr \<Rightarrow> pystr \<times> pystr" where
  "session_scan_full [] (model, task_class) = (model, task_class)"
| "session_scan_full (event # rest) (model, task_class) =
     (case py_get event (ascii ''payload'') of
        JDict payload \<Rightarrow>
          (let event_type = py_get event (ascii ''type'');
               model' = (if model = UNKNOWN_MODEL \<and> event_type = JStr (ascii ''cost_update'')
                         then label_candidate payload (ascii ''model'') model else model);
               task_class' = (if task_class = NONE_TASK_CLASS \<and> event_type = JStr (ascii ''skill_activated'')
                              then label_candidate payload (ascii ''skillName'') task_class else task_class)
           in session_scan_full rest (model', task_class'))
      | _ \<Rightarrow> session_scan_full rest (model, task_class))"

text \<open>The first label in scan order that differs from the sentinel.\<close>

fun first_res :: "pystr \<Rightarrow> pystr \<Rightarrow> pystr \<Rightarrow> pydict list \<Rightarrow> pystr" where
  "first_res ty key s [] = s"
| "first_res ty key s (e # es) =
     (case event_label ty key e of
        Some l \<Rightarrow> if l \<noteq> s then l else first_res ty key s es
      | None \<Rightarrow> first_res ty key s es)"

text \<open>The value of one label after one pass of the loop body.\<close>

definition step_label :: "pystr \<Rightarrow> pystr \<Rightarrow> pystr \<Rightarrow> pydict \<Rightarrow> pystr \<Rightarrow> pystr" where
  "step_label ty key s e cur =
     (if cur = s then (case event_label ty key e of Some l \<Rightarrow> l | None \<Rightarrow> cur) else cur)"

text \<open>
  The shape of a bucket in the summary document the observer writes: two strings, six
  floats, and the two integer sample counts.
\<close>

definition is_jstr :: "json \<Rightarrow> bool" where
  "is_jstr v = (case v of JStr s \<Rightarrow> True | _ \<Rightarrow> False)"

definition is_jint :: "json \<Rightarrow> bool" where
  "is_jint v = (case v of JInt n \<Rightarrow> True | _ \<Rightarrow> False)"

definition is_jfloat :: "json \<Rightarrow> bool" where
  "is_jfloat v = (case v of JFloat r \<Rightarrow> True | _ \<Rightarrow> False)"

definition observer_bucket :: "json \<Rightarrow> bool" where
  "observer_bucket b =
     (case b of
        JDict d \<Rightarrow>
          is_jstr (py_get d (ascii ''model'')) \<and> is_jstr (py_get d (ascii ''taskClass'')) \<and>
          is_jfloat (py_get d (ascii ''floorUnmetRate'')) \<and> is_jfloat (py_get d (ascii ''injectionDroppedRate'')) \<and>
          is_jfloat (py_get d (ascii ''avgInjectionTokens'')) \<and> is_jfloat (py_get d (ascii ''zoneAdaptationMoveRatio'')) \<and>
          is_jfloat (py_get d (ascii ''verificationPassRate'')) \<and> is_jfloat (py_get d (ascii ''qualityProxy'')) \<and>
          (case py_get d (ascii ''samples'') of
             JDict s \<Rightarrow> is_jint (py_get s (ascii ''plans'')) \<and> is_jint (py_get s (ascii ''verification''))
           | _ \<Rightarrow> False)
      | _ \<Rightarrow> False)"

definition sample_plans :: "json \<Rightarrow> int" where
  "sample_plans b =
     (case b of
        JDict d \<Rightarrow>
          (case py_get d (ascii ''samples'') of
             JDict s \<Rightarrow> (case py_get s (ascii ''plans'') of JInt p \<Rightarrow> p | _ \<Rightarrow> 0)
           | _ \<Rightarrow> 0)
      | _ \<Rightarrow> 0)"

text \<open>The positions, counted from \<open>i\<close>, of the buckets with at least 20 plan events.\<close>

fun qualifying :: "nat \<Rightarrow> json list \<Rightarrow> nat list" where
  "qualifying i [] = []"
| "qualifying i (b # bs) = (if 20 \<le> sample_plans b then [i] else []) @ qualifying (i + 1) bs"

text \<open>A runtime whose string parsers reject every string; used to run the tuner on concrete input.\<close>

definition no_parse :: builtins where
  "no_parse = \<lparr> int_of_str = (\<lambda>s. None), float_of_str = (\<lambda>s. None), str_of = (\<lambda>v. []) \<rparr>"

text \<open>
  The float a metric field stands for when it is a number that \<^verbatim>\<open>float()\<close> converts: a
  float (an infinity or NaN included), a boolean, or an integer within the range of a
  double.
\<close>

fun float_value :: "json \<Rightarrow> pyfloat option" where
  "float_value (JFloat x) = Some x"
| "float_value (JInt n) = (if \<bar>real_of_int n\<bar> < float_limit then Some (Fin (real_of_int n)) else None)"
| "float_value (JBool b) = Some (Fin (if b then 1 else 0))"
| "float_value _ = None"


section \<open>Strings and exceptions\<close>

lemma ascii_eq [simp]: "(ascii a = ascii b) = (a = b)"
  unfolding ascii_def by (simp add: inj_map_eq_map inj_on_def)

lemma ascii_Nil [simp]: "(ascii s = []) = (s = [])"
  by (simp add: ascii_def)

lemma fold_err_error:
  assumes "\<And>s x e. f s x = Inl e \<Longrightarrow> P e"
  shows "fold_err f s xs = Inl e \<Longrightarrow> P e"
proof (induction xs arbitrary: s)
  case Nil
  then show ?case by simp
next
  case (Cons x xs)
  show ?case
  proof (cases "f s x")
    case (Inl e')
    with Cons.prems have "e' = e" by (simp add: bind_err_def)
    with Inl assms show ?thesis by blast
  next
    case (Inr s')
    with Cons.prems have "fold_err f s' xs = Inl e" by (simp add: bind_err_def)
    then show ?thesis by (rule Cons.IH)
  qed
qed

lemma fold_err_invariant:
  assumes "\<And>s x s'. I s \<Longrightarrow> f s x = Inr s' \<Longrightarrow> I s'"
  shows "I s \<Longrightarrow> fold_err f s xs = Inr t \<Longrightarrow> I t"
proof (induction xs arbitrary: s)
  case Nil
  then show ?case by simp
next
  case (Cons x xs)
  from Cons.prems(2) obtain s' where s': "f s x = Inr s'" and rest: "fold_err f s' xs = Inr t"
    by (cases "f s x") (simp_all add: bind_err_def)
  from assms [OF Cons.prems(1) s'] have "I s'" .
  then show ?case using rest by (rule Cons.IH)
qed

section \<open>Rate Calculator\<close>

lemma float_limit_pos: "1 < float_limit"
  by (simp add: float_limit_def)

lemma py_max1_ne_zero: "py_max1 x \<noteq> Fin 0"
proof (cases "f_lt (Fin 1) x")
  case True
  then show ?thesis by (cases x) (simp_all add: py_max1_def)
next
  case False
  then show ?thesis by (simp add: py_max1_def)
qed

lemma compute_rates_spec: "compute_rates v = Inr (spec_rates v)"
proof -
  have nz: "\<And>x::real. max 1 x \<noteq> 0" by (simp add: max_def)
  show ?thesis
    by (simp add: compute_rates_def spec_rates_def Let_def bind_err_def py_div_def py_fdiv_def
        nz py_max1_ne_zero)
qed

lemma float_of_int_error: "float_of_int n = Inl e \<Longrightarrow> e = OverflowError"
  by (simp add: float_of_int_def split: if_splits)

lemma as_number_error: "as_number v = Inl e \<Longrightarrow> e = OverflowError"
  by (cases v) (auto dest: float_of_int_error)

lemma apply_event_error: "apply_event b ev = Inl e \<Longrightarrow> e = OverflowError"
  by (auto simp: apply_event_def Let_def bind_err_def split: if_splits sum.splits
      dest: as_number_error)

lemma count_event_error: "count_event c b ev = Inl e \<Longrightarrow> e = OverflowError"
  by (auto simp: count_event_def split: if_splits dest: apply_event_error)

lemma count_events_error: "count_events c b evs = Inl e \<Longrightarrow> e = OverflowError"
  unfolding count_events_def
  by (rule fold_err_error [where P = "\<lambda>e. e = OverflowError"]) (rule count_event_error)

lemma process_file_error: "process_file c g evs = Inl e \<Longrightarrow> e = OverflowError"
  by (auto simp: process_file_def Let_def bind_err_def split: if_splits sum.splits
      dest: count_events_error)

lemma accumulate_error: "accumulate c fs = Inl e \<Longrightarrow> e = OverflowError"
  unfolding accumulate_def
  by (rule fold_err_error [where P = "\<lambda>e. e = OverflowError"]) (rule process_file_error)

lemma build_report_rows:
  "map_err (\<lambda>(key, values). bind_err (compute_rates values) (\<lambda>r. Inr (key, values, r))) g
     = Inr (map (\<lambda>(key, values). (key, values, spec_rates values)) g)"
  by (induction g) (auto simp: bind_err_def compute_rates_spec)

lemma build_report_error: "build_report fmt today days c files = Inl e \<Longrightarrow> e = OverflowError"
proof (cases files)
  case None
  then show "build_report fmt today days c files = Inl e \<Longrightarrow> e = OverflowError"
    by (simp add: build_report_def)
next
  case (Some fs)
  assume err: "build_report fmt today days c files = Inl e"
  show "e = OverflowError"
  proof (cases "accumulate c fs")
    case (Inl e')
    with err Some have "e' = e" by (simp add: build_report_def bind_err_def)
    with Inl show ?thesis using accumulate_error by blast
  next
    case (Inr g)
    have "build_report fmt today days c (Some fs) \<noteq> Inl e"
      unfolding build_report_def Let_def option.case Inr build_report_rows
      by (simp add: bind_err_def)
    with err Some show ?thesis by simp
  qed
qed

text \<open>
  The one exception a run of \<^verbatim>\<open>build_report\<close> can end in is the \<^verbatim>\<open>OverflowError\<close> of
  \<^verbatim>\<open>as_number\<close> on an integer token count beyond the range of a double.
\<close>

lemma oversized_token_count:
  "build_report fmt today days 0
     (Some [[ [(ascii ''timestamp'', JInt 5), (ascii ''type'', JStr (ascii ''context_injected'')),
               (ascii ''payload'', JDict [(ascii ''sourceTokens'', JInt (10 ^ 400))])] ]])
   = Inl OverflowError"
  by (simp add: build_report_def accumulate_def process_file_def count_events_def count_event_def
      in_window_def apply_event_def py_get_def bind_err_def float_of_int_def float_limit_def)

text \<open>
  Claim C4. For every bucket the rate computation returns the six values of the
  specification's formulas, each denominator floored at 1:
  \<open>floorUnmetRate = floorUnmet / max(1, plans)\<close>,
  \<open>injectionDroppedRate = dropped / max(1, plans)\<close>,
  \<open>avgInjectionTokens = injectedTokensSum / max(1, injectedCount)\<close>,
  \<open>zoneAdaptationMoveRatio = zoneMoveTokens / max(1, injectedTokensSum)\<close>,
  \<open>verificationPassRate = verificationPass / max(1, verificationTotal)\<close> and
  \<open>qualityProxy = verificationPassRate * (1 - injectionDroppedRate)\<close>. A bucket with no
  plan events gets \<open>floorUnmetRate = floorUnmet / 1\<close>. No division raises: the rate
  computation always returns, and a run of \<^verbatim>\<open>build_report\<close> never ends in
  \<^verbatim>\<open>ZeroDivisionError\<close>.
\<close>

theorem rate_formulas:
  "compute_rates v = Inr (spec_rates v)
   \<and> compute_rates v \<noteq> Inl ZeroDivisionError
   \<and> (plans v = 0 \<longrightarrow> (\<exists>r. compute_rates v = Inr r \<and> floor_unmet_rate r = floor_unmet v / 1))
   \<and> build_report fmt today days c files \<noteq> Inl ZeroDivisionError"
proof -
  have "build_report fmt today days c files \<noteq> Inl ZeroDivisionError"
    using build_report_error [of fmt today days c files ZeroDivisionError] by auto
  then show ?thesis by (simp add: compute_rates_spec spec_rates_def)
qed

theorem rate_formulas_witness:
  "plans (zero_bucket\<lparr>floor_unmet := 3\<rparr>) = 0
   \<and> compute_rates (zero_bucket\<lparr>floor_unmet := 3\<rparr>)
       = Inr \<lparr> floor_unmet_rate = 3, dropped_rate = 0, avg_injection_tokens = Fin 0,
               zone_move_ratio = Fin 0, verification_pass_rate = 0, quality_proxy = 0 \<rparr>"
  using rate_formulas [of "zero_bucket\<lparr>floor_unmet := 3\<rparr>" "\<lambda>k x. []" "[]" 7 0 None]
  by (simp add: spec_rates_def zero_bucket_def py_max1_def round_overflow_def float_limit_def)


section \<open>Invariant of the accumulator\<close>

lemma strong_inv_zero: "strong_inv zero_bucket"
  by (simp add: strong_inv_def zero_bucket_def)

lemma apply_event_inv: "strong_inv b \<Longrightarrow> apply_event b e = Inr b' \<Longrightarrow> strong_inv b'"
  by (auto simp: strong_inv_def apply_event_def Let_def bind_err_def split: if_splits sum.splits)

lemma count_event_inv: "strong_inv b \<Longrightarrow> count_event c b e = Inr b' \<Longrightarrow> strong_inv b'"
  by (auto simp: count_event_def split: if_splits dest: apply_event_inv)

lemma count_events_inv: "strong_inv b \<Longrightarrow> count_events c b es = Inr b' \<Longrightarrow> strong_inv b'"
  unfolding count_events_def
  by (rule fold_err_invariant [where I = strong_inv and f = "count_event c"]) (rule count_event_inv)

lemma set_update_sub: "set (AList.update k v al) \<subseteq> insert (k, v) (set al)"
  by (induction al) auto

lemma process_file_inv:
  assumes "\<forall>(k, b) \<in> set g. strong_inv b" and "process_file c g es = Inr g'"
  shows "\<forall>(k, b) \<in> set g'. strong_inv b"
proof (cases "es = []")
  case True
  then show ?thesis using assms by (simp add: process_file_def)
next
  case False
  define key where "key = session_bucket es"
  define b0 where "b0 = (case map_of g key of Some b \<Rightarrow> b | None \<Rightarrow> zero_bucket)"
  have inv0: "strong_inv b0"
  proof (cases "map_of g key")
    case None
    then show ?thesis by (simp add: b0_def strong_inv_zero)
  next
    case (Some b)
    then have "(key, b) \<in> set g" by (rule map_of_SomeD)
    with assms(1) Some show ?thesis by (auto simp: b0_def)
  qed
  from assms(2) False obtain b' where b': "count_events c b0 es = Inr b'"
    and g': "g' = AList.update key b' g"
    by (cases "count_events c b0 es")
       (simp_all add: process_file_def Let_def bind_err_def key_def b0_def)
  from inv0 b' have "strong_inv b'" by (rule count_events_inv)
  moreover have "set (AList.update key b' g) \<subseteq> insert (key, b') (set g)"
    by (rule set_update_sub)
  ultimately show ?thesis using assms(1) unfolding g' by auto
qed

lemma accumulate_inv:
  assumes "accumulate c fs = Inr g" and "(k, b) \<in> set g"
  shows "strong_inv b"
proof -
  have "\<forall>(k, b) \<in> set g. strong_inv b"
  proof (rule fold_err_invariant [where I = "\<lambda>g. \<forall>(k, b) \<in> set g. strong_inv b"
        and f = "process_file c" and s = "[]" and xs = fs])
    show "\<forall>(k, b) \<in> set []. strong_inv b" by simp
    show "fold_err (process_file c) [] fs = Inr g" using assms(1) by (simp add: accumulate_def)
    show "\<And>s x s'. \<forall>(k, b) \<in> set s. strong_inv b \<Longrightarrow> process_file c s x = Inr s'
        \<Longrightarrow> \<forall>(k, b) \<in> set s'. strong_inv b"
      by (rule process_file_inv)
  qed
  with assms(2) show ?thesis by auto
qed

lemma rate_unit_interval:
  fixes a b :: real
  assumes "0 \<le> a" "a \<le> b"
  shows "0 \<le> a / max 1 b \<and> a / max 1 b \<le> 1"
proof -
  have "0 < max 1 b" by simp
  moreover have "a \<le> max 1 b" using assms by simp
  ultimately show ?thesis using assms(1) by (simp add: divide_le_eq_1)
qed

text \<open>
  Claim C10. Whatever events are counted from the all-zero bucket, \<open>dropped \<le> plans\<close>,
  \<open>injectedCount \<le> plans\<close> and \<open>verificationPass \<le> verificationTotal\<close> hold of the bucket
  the counting returns; the same holds of every bucket the accumulation over any list of
  session files returns, and for each of them \<open>injectionDroppedRate\<close> and
  \<open>verificationPassRate\<close> lie in \<open>[0, 1]\<close>. The only other outcome is that an oversized
  integer token count ends the run with \<^verbatim>\<open>OverflowError\<close>; every state reached before
  that is the result of counting a shorter list of events.
\<close>

theorem accumulator_invariant:
  "(case count_events cutoff zero_bucket events of
      Inr b \<Rightarrow>
        dropped b \<le> plans b \<and> injected_count b \<le> plans b \<and> verification_pass b \<le> verification_total b
    | Inl e \<Rightarrow> e = OverflowError)
   \<and> (case accumulate cutoff files of
         Inr g \<Rightarrow>
           (\<forall>(key, b) \<in> set g.
              dropped b \<le> plans b \<and> injected_count b \<le> plans b \<and> verification_pass b \<le> verification_total b
              \<and> (\<exists>r. compute_rates b = Inr r
                    \<and> 0 \<le> dropped_rate r \<and> dropped_rate r \<le> 1
                    \<and> 0 \<le> verification_pass_rate r \<and> verification_pass_rate r \<le> 1))
       | Inl e \<Rightarrow> e = OverflowError)"
proof -
  have first: "dropped b \<le> plans b \<and> injected_count b \<le> plans b \<and> verification_pass b \<le> verification_total b"
    if "count_events cutoff zero_bucket events = Inr b" for b
    using count_events_inv [OF strong_inv_zero that] by (simp add: strong_inv_def)
  have second: "dropped b \<le> plans b \<and> injected_count b \<le> plans b \<and> verification_pass b \<le> verification_total b
         \<and> (\<exists>r. compute_rates b = Inr r
               \<and> 0 \<le> dropped_rate r \<and> dropped_rate r \<le> 1
               \<and> 0 \<le> verification_pass_rate r \<and> verification_pass_rate r \<le> 1)"
    if "accumulate cutoff files = Inr g" and "(key, b) \<in> set g" for g key b
  proof -
    from that have inv: "strong_inv b" by (rule accumulate_inv)
    have d: "0 \<le> dropped b / max 1 (plans b) \<and> dropped b / max 1 (plans b) \<le> 1"
      using inv by (intro rate_unit_interval) (simp_all add: strong_inv_def)
    have v: "0 \<le> verification_pass b / max 1 (verification_total b)
           \<and> verification_pass b / max 1 (verification_total b) \<le> 1"
      using inv by (intro rate_unit_interval) (simp_all add: strong_inv_def)
    show ?thesis using inv d v
      by (simp add: compute_rates_spec spec_rates_def strong_inv_def)
  qed
  have a: "case count_events cutoff zero_bucket events of
      Inr b \<Rightarrow>
        dropped b \<le> plans b \<and> injected_count b \<le> plans b \<and> verification_pass b \<le> verification_total b
    | Inl e \<Rightarrow> e = OverflowError"
    using first count_events_error by (cases "count_events cutoff zero_bucket events") auto
  have b: "case accumulate cutoff files of
         Inr g \<Rightarrow>
           (\<forall>(key, b) \<in> set g.
              dropped b \<le> plans b \<and> injected_count b \<le> plans b \<and> verification_pass b \<le> verification_total b
              \<and> (\<exists>r. compute_rates b = Inr r
                    \<and> 0 \<le> dropped_rate r \<and> dropped_rate r \<le> 1
                    \<and> 0 \<le> verification_pass_rate r \<and> verification_pass_rate r \<le> 1))
       | Inl e \<Rightarrow> e = OverflowError"
  proof (cases "accumulate cutoff files")
    case (Inl e)
    then show ?thesis using accumulate_error by simp
  next
    case (Inr g)
    then show ?thesis using second [OF Inr] by auto
  qed
  from a b show ?thesis by blast
qed

theorem accumulator_invariant_witness:
  "accumulate 0
      [[ [(ascii ''timestamp'', JInt 5), (ascii ''type'', JStr (ascii ''context_injected''))],
         [(ascii ''timestamp'', JInt 6), (ascii ''type'', JStr (ascii ''context_injection_dropped''))] ]]
    = Inr [((ascii ''(unknown)'', ascii ''(none)''),
        zero_bucket\<lparr>plans := 2, dropped := 1, injected_count := 1\<rparr>)]
   \<and> dropped (zero_bucket\<lparr>plans := 2, dropped := 1, injected_count := 1\<rparr>)
       \<le> plans (zero_bucket\<lparr>plans := 2, dropped := 1, injected_count := 1\<rparr>)
   \<and> compute_rates (zero_bucket\<lparr>plans := 2, dropped := 1, injected_count := 1\<rparr>)
       = Inr \<lparr> floor_unmet_rate = 0, dropped_rate = 1 / 2, avg_injection_tokens = Fin 0,
               zone_move_ratio = Fin 0, verification_pass_rate = 0, quality_proxy = 0 \<rparr>"
proof -
  have acc: "accumulate 0
      [[ [(ascii ''timestamp'', JInt 5), (ascii ''type'', JStr (ascii ''context_injected''))],
         [(ascii ''timestamp'', JInt 6), (ascii ''type'', JStr (ascii ''context_injection_dropped''))] ]]
    = Inr [((ascii ''(unknown)'', ascii ''(none)''),
        zero_bucket\<lparr>plans := 2, dropped := 1, injected_count := 1\<rparr>)]"
    by (simp add: accumulate_def process_file_def session_bucket_def py_get_def
      UNKNOWN_MODEL_def NONE_TASK_CLASS_def count_events_def count_event_def in_window_def
      apply_event_def bind_err_def zero_bucket_def round_overflow_def float_limit_def)
  show ?thesis
    using accumulator_invariant [of 0 "[]"
      "[[ [(ascii ''timestamp'', JInt 5), (ascii ''type'', JStr (ascii ''context_injected''))],
         [(ascii ''timestamp'', JInt 6), (ascii ''type'', JStr (ascii ''context_injection_dropped''))] ]]"]
    unfolding acc
    by (simp add: compute_rates_spec spec_rates_def zero_bucket_def py_max1_def
        round_overflow_def float_limit_def)
qed


section \<open>Bounds of the rates\<close>

lemma ratio_nonneg:
  fixes a b :: real
  assumes "0 \<le> a"
  shows "0 \<le> a / max 1 b"
  using assms by simp

lemma ratio_le_one_iff:
  fixes a b :: real
  shows "a / max 1 b \<le> 1 \<longleftrightarrow> a \<le> max 1 b"
proof -
  have "0 < max 1 b" by simp
  then show ?thesis by (simp only: divide_le_eq_1_pos)
qed

lemma ratio_le_self:
  fixes a b :: real
  assumes "0 \<le> a"
  shows "a / max 1 b \<le> a"
proof -
  have "a / max 1 b \<le> a / 1"
    using assms by (intro divide_left_mono) simp_all
  then show ?thesis by simp
qed

lemma py_max1_Fin: "py_max1 (Fin s) = Fin (max 1 s)"
  by (simp add: py_max1_def max_def)

lemma finite_quotient:
  assumes "0 \<le> a" and "a < float_limit"
  shows "f_quot (Fin a) (Fin (max 1 b)) = Fin (a / max 1 b)"
proof -
  have "a / max 1 b \<le> a" using assms(1) by (rule ratio_le_self)
  with assms(2) have up: "\<not> float_limit \<le> a / max 1 b" by simp
  have "0 \<le> a / max 1 b" using assms(1) by (rule ratio_nonneg)
  moreover have "- float_limit < 0" using float_limit_pos by simp
  ultimately have lo: "\<not> a / max 1 b \<le> - float_limit" by simp
  show ?thesis using up lo by (simp add: round_overflow_def)
qed

text \<open>
  Claim C1, as stated, fails: with non-negative counters \<open>floorUnmetRate\<close> can exceed 1.
  Two floor-unmet events in a session with no plan event give \<open>floorUnmet = 2\<close> and
  \<open>plans = 0\<close>, hence \<open>floorUnmetRate = 2 / max(1, 0) = 2\<close>.
\<close>

theorem rate_bounds_counterexample:
  "finite_nonneg_counters (zero_bucket\<lparr>floor_unmet := 2\<rparr>)
   \<and> count_events 0 zero_bucket
        [ [(ascii ''timestamp'', JInt 5), (ascii ''type'', JStr (ascii ''context_arena_floor_unmet_unrecoverable''))],
          [(ascii ''timestamp'', JInt 6), (ascii ''type'', JStr (ascii ''context_arena_floor_unmet_unrecoverable''))] ]
       = Inr (zero_bucket\<lparr>floor_unmet := 2\<rparr>)
   \<and> compute_rates (zero_bucket\<lparr>floor_unmet := 2\<rparr>)
       = Inr \<lparr> floor_unmet_rate = 2, dropped_rate = 0, avg_injection_tokens = Fin 0,
               zone_move_ratio = Fin 0, verification_pass_rate = 0, quality_proxy = 0 \<rparr>
   \<and> \<not> floor_unmet_rate \<lparr> floor_unmet_rate = 2, dropped_rate = 0, avg_injection_tokens = Fin 0,
               zone_move_ratio = Fin 0, verification_pass_rate = 0, quality_proxy = 0 \<rparr> \<le> 1"
  by (simp add: finite_nonneg_counters_def finite_nonneg_def zero_bucket_def compute_rates_spec
      spec_rates_def count_events_def count_event_def in_window_def apply_event_def py_get_def
      bind_err_def py_max1_def round_overflow_def float_limit_def)

text \<open>
  The token sums are floats, and they leave the unit interval in another way: two source
  token counts of \<open>1e308\<close> add up to infinity, and with an infinite sum of moved tokens the
  ratio is \<open>inf / max(1.0, inf)\<close>, which is NaN.
\<close>

lemma overflowing_sums:
  "count_events 0 zero_bucket
     [ [(ascii ''timestamp'', JInt 5), (ascii ''type'', JStr (ascii ''context_injected'')),
        (ascii ''payload'', JDict [(ascii ''sourceTokens'', JFloat (Fin (10 ^ 308)))])],
       [(ascii ''timestamp'', JInt 6), (ascii ''type'', JStr (ascii ''context_injected'')),
        (ascii ''payload'', JDict [(ascii ''sourceTokens'', JFloat (Fin (10 ^ 308)))])],
       [(ascii ''timestamp'', JInt 7), (ascii ''type'', JStr (ascii ''context_arena_zone_adapted'')),
        (ascii ''payload'', JDict [(ascii ''movedTokens'', JFloat PInf)])] ]
   = Inr (zero_bucket\<lparr>plans := 2, injected_count := 2, injected_tokens_sum := PInf,
            zone_moves := 1, zone_move_tokens := PInf\<rparr>)
   \<and> compute_rates (zero_bucket\<lparr>plans := 2, injected_count := 2, injected_tokens_sum := PInf,
            zone_moves := 1, zone_move_tokens := PInf\<rparr>)
     = Inr \<lparr> floor_unmet_rate = 0, dropped_rate = 0, avg_injection_tokens = PInf,
             zone_move_ratio = NaN, verification_pass_rate = 0, quality_proxy = 0 \<rparr>"
  by (simp add: count_events_def count_event_def in_window_def apply_event_def py_get_def
      bind_err_def zero_bucket_def round_overflow_def float_limit_def compute_rates_spec
      spec_rates_def py_max1_def)

text \<open>
  Claim C1, amended. For every bucket whose raw counters are finite and non-negative and
  in which \<open>dropped \<le> plans\<close> and \<open>verificationPass \<le> verificationTotal\<close>, \<open>qualityProxy\<close>,
  \<open>injectionDroppedRate\<close> and \<open>verificationPassRate\<close> lie in \<open>[0, 1]\<close>; \<open>floorUnmetRate\<close>,
  \<open>zoneAdaptationMoveRatio\<close> and \<open>avgInjectionTokens\<close> are non-negative, and
  \<open>floorUnmetRate\<close> (\<open>zoneAdaptationMoveRatio\<close>) is at most 1 exactly when
  \<open>floorUnmet \<le> max(1, plans)\<close> (\<open>zoneMoveTokens \<le> max(1, injectedTokensSum)\<close>).
\<close>

theorem rate_bounds:
  assumes "finite_nonneg_counters b"
    and "dropped b \<le> plans b"
    and "verification_pass b \<le> verification_total b"
  shows "\<exists>r. compute_rates b = Inr r
     \<and> 0 \<le> quality_proxy r \<and> quality_proxy r \<le> 1
     \<and> 0 \<le> dropped_rate r \<and> dropped_rate r \<le> 1
     \<and> 0 \<le> verification_pass_rate r \<and> verification_pass_rate r \<le> 1
     \<and> 0 \<le> floor_unmet_rate r
     \<and> f_le (Fin 0) (zone_move_ratio r)
     \<and> f_le (Fin 0) (avg_injection_tokens r)
     \<and> (floor_unmet_rate r \<le> 1 \<longleftrightarrow> floor_unmet b \<le> max 1 (plans b))
     \<and> (f_le (zone_move_ratio r) (Fin 1)
          \<longleftrightarrow> f_le (zone_move_tokens b) (py_max1 (injected_tokens_sum b)))"
proof -
  from assms(1) obtain s where s: "injected_tokens_sum b = Fin s" "0 \<le> s" "s < float_limit"
    by (cases "injected_tokens_sum b") (simp_all add: finite_nonneg_counters_def finite_nonneg_def)
  from assms(1) obtain t where t: "zone_move_tokens b = Fin t" "0 \<le> t" "t < float_limit"
    by (cases "zone_move_tokens b") (simp_all add: finite_nonneg_counters_def finite_nonneg_def)
  define d where "d = dropped b / max 1 (plans b)"
  define v where "v = verification_pass b / max 1 (verification_total b)"
  have d: "0 \<le> d \<and> d \<le> 1"
    unfolding d_def using assms by (intro rate_unit_interval) (simp_all add: finite_nonneg_counters_def)
  have v: "0 \<le> v \<and> v \<le> 1"
    unfolding v_def using assms by (intro rate_unit_interval) (simp_all add: finite_nonneg_counters_def)
  have q0: "0 \<le> v * (1 - d)" using d v by simp
  have "v * (1 - d) \<le> 1 * 1"
    using d v by (intro mult_mono) simp_all
  then have q1: "v * (1 - d) \<le> 1" by simp
  have f: "0 \<le> floor_unmet b / max 1 (plans b)"
    using assms(1) by (intro ratio_nonneg) (simp add: finite_nonneg_counters_def)
  have avg: "f_quot (injected_tokens_sum b) (Fin (max 1 (injected_count b)))
      = Fin (s / max 1 (injected_count b))"
    unfolding s(1) using s(2,3) by (rule finite_quotient)
  have zone: "f_quot (zone_move_tokens b) (py_max1 (injected_tokens_sum b)) = Fin (t / max 1 s)"
    unfolding t(1) s(1) py_max1_Fin using t(2,3) by (rule finite_quotient)
  have ro_avg: "round_overflow (s / max 1 (injected_count b)) = Fin (s / max 1 (injected_count b))"
    using avg unfolding s(1) by simp
  have ro_zone: "round_overflow (t / max 1 s) = Fin (t / max 1 s)"
    using zone unfolding t(1) s(1) py_max1_Fin by simp
  have a0: "0 \<le> s / max 1 (injected_count b)" using s(2) by (rule ratio_nonneg)
  have z0: "0 \<le> t / max 1 s" using t(2) by (rule ratio_nonneg)
  show ?thesis
    using d v q0 q1 f a0 z0
    by (simp add: compute_rates_spec spec_rates_def d_def v_def ratio_le_one_iff ro_avg ro_zone
        t(1) s(1) py_max1_Fin)
qed

theorem rate_bounds_witness:
  "finite_nonneg_counters \<lparr> plans = 27, floor_unmet = 0, dropped = 2, injected_tokens_sum = Fin 2500,
       injected_count = 25, zone_moves = 0, zone_move_tokens = Fin 0,
       verification_total = 20, verification_pass = 20 \<rparr>
   \<and> compute_rates \<lparr> plans = 27, floor_unmet = 0, dropped = 2, injected_tokens_sum = Fin 2500,
       injected_count = 25, zone_moves = 0, zone_move_tokens = Fin 0,
       verification_total = 20, verification_pass = 20 \<rparr>
     = Inr \<lparr> floor_unmet_rate = 0, dropped_rate = 2 / 27, avg_injection_tokens = Fin 100,
             zone_move_ratio = Fin 0, verification_pass_rate = 1, quality_proxy = 25 / 27 \<rparr>"
proof -
  have n: "finite_nonneg_counters \<lparr> plans = 27, floor_unmet = 0, dropped = 2, injected_tokens_sum = Fin 2500,
       injected_count = 25, zone_moves = 0, zone_move_tokens = Fin 0,
       verification_total = 20, verification_pass = 20 \<rparr>"
    by (simp add: finite_nonneg_counters_def finite_nonneg_def float_limit_def)
  show ?thesis
    using n rate_bounds [OF n]
    by (simp add: compute_rates_spec spec_rates_def py_max1_def round_overflow_def float_limit_def)
qed


section \<open>Strategy Decision Rule\<close>

lemmas double_defs =
  double_0_92_def double_0_88_def double_0_01_def double_0_05_def double_0_08_def double_0_02_def

text \<open>Each threshold is within \<open>10^-16\<close> of the decimal number written, and not below it.\<close>

lemma threshold_doubles:
  "92 / 100 \<le> double_0_92 \<and> double_0_92 - 92 / 100 < 1 / 10 ^ 16"
  "88 / 100 \<le> double_0_88 \<and> double_0_88 - 88 / 100 < 1 / 10 ^ 16"
  "1 / 100 \<le> double_0_01 \<and> double_0_01 - 1 / 100 < 1 / 10 ^ 16"
  "5 / 100 \<le> double_0_05 \<and> double_0_05 - 5 / 100 < 1 / 10 ^ 16"
  "8 / 100 \<le> double_0_08 \<and> double_0_08 - 8 / 100 < 1 / 10 ^ 16"
  "2 / 100 \<le> double_0_02 \<and> double_0_02 - 2 / 100 < 1 / 10 ^ 16"
  by (simp_all add: double_defs)

lemma py_float_value: "float_value v = Some x \<Longrightarrow> py_float rt v = Inr x"
  by (cases v) (auto simp: float_of_int_def split: if_splits)

lemma choose_arm_converted:
  assumes "py_float rt (py_get_default bucket (ascii ''qualityProxy'') (JFloat (Fin 0))) = Inr q"
    and "py_float rt (py_get_default bucket (ascii ''floorUnmetRate'') (JFloat (Fin 0))) = Inr f"
    and "py_float rt (py_get_default bucket (ascii ''injectionDroppedRate'') (JFloat (Fin 0))) = Inr d"
    and "py_float rt (py_get_default bucket (ascii ''zoneAdaptationMoveRatio'') (JFloat (Fin 0))) = Inr z"
  shows "choose_arm rt bucket =
     Inr (if f_le (Fin double_0_92) q \<and> f_le f (Fin double_0_01) \<and> f_le d (Fin double_0_08) \<and> f_le z (Fin double_0_02)
          then ascii ''passthrough''
          else if f_le (Fin double_0_88) q \<and> f_le f (Fin double_0_05) then ascii ''hybrid''
          else ascii ''managed'')"
  unfolding choose_arm_def assms by (simp add: bind_err_def)

text \<open>\<^verbatim>\<open>choose_arm\<close> returns a label only when all four conversions succeed.\<close>

lemma choose_arm_returns:
  assumes "choose_arm rt bucket = Inr a"
  shows "\<exists>q f d z.
      py_float rt (py_get_default bucket (ascii ''qualityProxy'') (JFloat (Fin 0))) = Inr q
    \<and> py_float rt (py_get_default bucket (ascii ''floorUnmetRate'') (JFloat (Fin 0))) = Inr f
    \<and> py_float rt (py_get_default bucket (ascii ''injectionDroppedRate'') (JFloat (Fin 0))) = Inr d
    \<and> py_float rt (py_get_default bucket (ascii ''zoneAdaptationMoveRatio'') (JFloat (Fin 0))) = Inr z"
  using assms unfolding choose_arm_def bind_err_def
  by (auto split: sum.splits)

lemma quality_threshold_mono: "f_le (Fin double_0_92) q \<Longrightarrow> f_le (Fin double_0_88) q"
  by (cases q) (simp_all add: double_defs)

lemma floor_threshold_mono: "f_le f (Fin double_0_01) \<Longrightarrow> f_le f (Fin double_0_05)"
  by (cases f) (simp_all add: double_defs)

text \<open>
  Claim C2, as stated, fails: the rule is not total over all numbers a summary can hold.
  A metric that is an integer beyond the range of a double makes \<^verbatim>\<open>float()\<close> raise
  \<^verbatim>\<open>OverflowError\<close>.
\<close>

theorem decision_rule_counterexample:
  "choose_arm no_parse [(ascii ''qualityProxy'', JInt (10 ^ 400))] = Inl OverflowError"
  by (simp add: choose_arm_def py_get_default_def bind_err_def float_of_int_def float_limit_def)

text \<open>
  Claim C2, amended. On a bucket whose four metrics are numbers that \<^verbatim>\<open>float()\<close> converts
  (floats, infinities and NaN included; booleans; integers within the range of a double;
  a field that is absent reads as \<open>0.0\<close>), \<^verbatim>\<open>choose_arm\<close> raises nothing and returns
  \<open>passthrough\<close> exactly when \<open>qualityProxy \<ge> 0.92\<close>, \<open>floorUnmetRate \<le> 0.01\<close>,
  \<open>injectionDroppedRate \<le> 0.08\<close> and \<open>zoneAdaptationMoveRatio \<le> 0.02\<close>; otherwise \<open>hybrid\<close>
  exactly when \<open>qualityProxy \<ge> 0.88\<close> and \<open>floorUnmetRate \<le> 0.05\<close>; otherwise \<open>managed\<close>.
  The comparisons are those of floats, against the doubles the literals denote
  (\<open>double_0_92\<close> for \<open>0.92\<close> and so on), so a NaN metric meets no threshold. The first
  matching check wins, and one of the three labels is returned for every such input. An
  integer metric of magnitude \<open>2^1024 - 2^970\<close> or more raises \<^verbatim>\<open>OverflowError\<close>.
\<close>

theorem decision_rule:
  "(float_value (py_get_default bucket (ascii ''qualityProxy'') (JFloat (Fin 0))) = Some q
    \<and> float_value (py_get_default bucket (ascii ''floorUnmetRate'') (JFloat (Fin 0))) = Some f
    \<and> float_value (py_get_default bucket (ascii ''injectionDroppedRate'') (JFloat (Fin 0))) = Some d
    \<and> float_value (py_get_default bucket (ascii ''zoneAdaptationMoveRatio'') (JFloat (Fin 0))) = Some z
    \<longrightarrow>
      (choose_arm rt bucket = Inr (ascii ''passthrough'') \<longleftrightarrow>
         f_le (Fin double_0_92) q \<and> f_le f (Fin double_0_01) \<and> f_le d (Fin double_0_08) \<and> f_le z (Fin double_0_02))
    \<and> (choose_arm rt bucket = Inr (ascii ''hybrid'') \<longleftrightarrow>
         \<not> (f_le (Fin double_0_92) q \<and> f_le f (Fin double_0_01) \<and> f_le d (Fin double_0_08) \<and> f_le z (Fin double_0_02))
         \<and> f_le (Fin double_0_88) q \<and> f_le f (Fin double_0_05))
    \<and> (choose_arm rt bucket = Inr (ascii ''managed'') \<longleftrightarrow>
         \<not> (f_le (Fin double_0_92) q \<and> f_le f (Fin double_0_01) \<and> f_le d (Fin double_0_08) \<and> f_le z (Fin double_0_02))
         \<and> \<not> (f_le (Fin double_0_88) q \<and> f_le f (Fin double_0_05)))
    \<and> (choose_arm rt bucket = Inr (ascii ''passthrough'') \<or> choose_arm rt bucket = Inr (ascii ''hybrid'')
         \<or> choose_arm rt bucket = Inr (ascii ''managed'')))
   \<and> (py_get_default bucket (ascii ''floorUnmetRate'') (JFloat (Fin 0)) = JInt n
        \<and> float_limit \<le> \<bar>real_of_int n\<bar>
       \<longrightarrow> choose_arm rt bucket = Inl OverflowError)"
proof -
  have total: "(choose_arm rt bucket = Inr (ascii ''passthrough'') \<longleftrightarrow>
         f_le (Fin double_0_92) q \<and> f_le f (Fin double_0_01) \<and> f_le d (Fin double_0_08) \<and> f_le z (Fin double_0_02))
    \<and> (choose_arm rt bucket = Inr (ascii ''hybrid'') \<longleftrightarrow>
         \<not> (f_le (Fin double_0_92) q \<and> f_le f (Fin double_0_01) \<and> f_le d (Fin double_0_08) \<and> f_le z (Fin double_0_02))
         \<and> f_le (Fin double_0_88) q \<and> f_le f (Fin double_0_05))
    \<and> (choose_arm rt bucket = Inr (ascii ''managed'') \<longleftrightarrow>
         \<not> (f_le (Fin double_0_92) q \<and> f_le f (Fin double_0_01) \<and> f_le d (Fin double_0_08) \<and> f_le z (Fin double_0_02))
         \<and> \<not> (f_le (Fin double_0_88) q \<and> f_le f (Fin double_0_05)))
    \<and> (choose_arm rt bucket = Inr (ascii ''passthrough'') \<or> choose_arm rt bucket = Inr (ascii ''hybrid'')
         \<or> choose_arm rt bucket = Inr (ascii ''managed''))"
    if q: "float_value (py_get_default bucket (ascii ''qualityProxy'') (JFloat (Fin 0))) = Some q"
      and f: "float_value (py_get_default bucket (ascii ''floorUnmetRate'') (JFloat (Fin 0))) = Some f"
      and d: "float_value (py_get_default bucket (ascii ''injectionDroppedRate'') (JFloat (Fin 0))) = Some d"
      and z: "float_value (py_get_default bucket (ascii ''zoneAdaptationMoveRatio'') (JFloat (Fin 0))) = Some z"
    unfolding choose_arm_converted [OF py_float_value [OF q] py_float_value [OF f]
        py_float_value [OF d] py_float_value [OF z]]
    by simp
  have overflow: "choose_arm rt bucket = Inl OverflowError"
    if "py_get_default bucket (ascii ''floorUnmetRate'') (JFloat (Fin 0)) = JInt n"
      and "float_limit \<le> \<bar>real_of_int n\<bar>"
    using that by (simp add: choose_arm_def bind_err_def float_of_int_def)
  from total overflow show ?thesis by blast
qed

theorem decision_rule_witness:
  "choose_arm no_parse
      [(ascii ''qualityProxy'', JFloat (Fin (25 / 27))), (ascii ''floorUnmetRate'', JFloat (Fin 0)),
       (ascii ''injectionDroppedRate'', JFloat (Fin (2 / 27))), (ascii ''zoneAdaptationMoveRatio'', JFloat (Fin 0))]
     = Inr (ascii ''passthrough'')
   \<and> choose_arm no_parse
      [(ascii ''qualityProxy'', JFloat (Fin (9 / 10))), (ascii ''floorUnmetRate'', JFloat (Fin (3 / 100))),
       (ascii ''injectionDroppedRate'', JFloat (Fin 0)), (ascii ''zoneAdaptationMoveRatio'', JFloat (Fin 0))]
     = Inr (ascii ''hybrid'')
   \<and> choose_arm no_parse
      [(ascii ''qualityProxy'', JFloat NaN), (ascii ''floorUnmetRate'', JInt 0)]
     = Inr (ascii ''managed'')
   \<and> choose_arm no_parse
      [(ascii ''floorUnmetRate'', JInt (2 ^ 1024))]
     = Inl OverflowError"
  using decision_rule [of
      "[(ascii ''qualityProxy'', JFloat (Fin (25 / 27))), (ascii ''floorUnmetRate'', JFloat (Fin 0)),
        (ascii ''injectionDroppedRate'', JFloat (Fin (2 / 27))), (ascii ''zoneAdaptationMoveRatio'', JFloat (Fin 0))]"
      "Fin (25 / 27)" "Fin 0" "Fin (2 / 27)" "Fin 0" no_parse 0]
    decision_rule [of
      "[(ascii ''qualityProxy'', JFloat (Fin (9 / 10))), (ascii ''floorUnmetRate'', JFloat (Fin (3 / 100))),
        (ascii ''injectionDroppedRate'', JFloat (Fin 0)), (ascii ''zoneAdaptationMoveRatio'', JFloat (Fin 0))]"
      "Fin (9 / 10)" "Fin (3 / 100)" "Fin 0" "Fin 0" no_parse 0]
    decision_rule [of
      "[(ascii ''qualityProxy'', JFloat NaN), (ascii ''floorUnmetRate'', JInt 0)]"
      NaN "Fin 0" "Fin 0" "Fin 0" no_parse 0]
    decision_rule [of
      "[(ascii ''floorUnmetRate'', JInt (2 ^ 1024))]"
      "Fin 0" "Fin 0" "Fin 0" "Fin 0" no_parse "2 ^ 1024"]
  by (simp add: py_get_default_def float_limit_def double_defs)

text \<open>
  Claim C9. A summary whose metric values meet the four thresholds of \<open>passthrough\<close>
  meets the two of \<open>hybrid\<close>, is classified \<open>passthrough\<close> and so never \<open>managed\<close>; a
  bucket classified \<open>managed\<close> has metric values that fail the thresholds of \<open>hybrid\<close>
  and with them those of \<open>passthrough\<close>. The inclusion is strict: the summary with
  \<open>qualityProxy = 0.9\<close> and \<open>floorUnmetRate = 0.03\<close> is \<open>hybrid\<close>.
\<close>

theorem passthrough_implies_hybrid:
  assumes "py_float rt (py_get_default bucket (ascii ''qualityProxy'') (JFloat (Fin 0))) = Inr q"
    and "py_float rt (py_get_default bucket (ascii ''floorUnmetRate'') (JFloat (Fin 0))) = Inr f"
    and "py_float rt (py_get_default bucket (ascii ''injectionDroppedRate'') (JFloat (Fin 0))) = Inr d"
    and "py_float rt (py_get_default bucket (ascii ''zoneAdaptationMoveRatio'') (JFloat (Fin 0))) = Inr z"
  shows "(f_le (Fin double_0_92) q \<and> f_le f (Fin double_0_01) \<and> f_le d (Fin double_0_08) \<and> f_le z (Fin double_0_02)
          \<longrightarrow> f_le (Fin double_0_88) q \<and> f_le f (Fin double_0_05)
              \<and> choose_arm rt bucket = Inr (ascii ''passthrough'')
              \<and> choose_arm rt bucket \<noteq> Inr (ascii ''managed''))
     \<and> (choose_arm rt bucket = Inr (ascii ''managed'')
          \<longrightarrow> \<not> (f_le (Fin double_0_88) q \<and> f_le f (Fin double_0_05))
              \<and> \<not> (f_le (Fin double_0_92) q \<and> f_le f (Fin double_0_01) \<and> f_le d (Fin double_0_08) \<and> f_le z (Fin double_0_02)))
     \<and> choose_arm rt [(ascii ''qualityProxy'', JFloat (Fin (9 / 10))), (ascii ''floorUnmetRate'', JFloat (Fin (3 / 100)))]
         = Inr (ascii ''hybrid'')"
proof -
  have strict: "choose_arm rt [(ascii ''qualityProxy'', JFloat (Fin (9 / 10))), (ascii ''floorUnmetRate'', JFloat (Fin (3 / 100)))]
         = Inr (ascii ''hybrid'')"
    by (simp add: choose_arm_def py_get_default_def bind_err_def double_defs)
  show ?thesis
    unfolding choose_arm_converted [OF assms] strict
    using quality_threshold_mono [of q] floor_threshold_mono [of f] by auto
qed

theorem passthrough_implies_hybrid_witness:
  "choose_arm no_parse
     [(ascii ''qualityProxy'', JFloat (Fin (19 / 20))), (ascii ''floorUnmetRate'', JFloat (Fin (1 / 100))),
      (ascii ''injectionDroppedRate'', JFloat (Fin (2 / 25))), (ascii ''zoneAdaptationMoveRatio'', JFloat (Fin (1 / 50)))]
     = Inr (ascii ''passthrough'')
   \<and> f_le (Fin double_0_88) (Fin (19 / 20)) \<and> f_le (Fin (1 / 100)) (Fin double_0_05)"
proof -
  have c: "py_float no_parse (py_get_default
     [(ascii ''qualityProxy'', JFloat (Fin (19 / 20))), (ascii ''floorUnmetRate'', JFloat (Fin (1 / 100))),
      (ascii ''injectionDroppedRate'', JFloat (Fin (2 / 25))), (ascii ''zoneAdaptationMoveRatio'', JFloat (Fin (1 / 50)))]
     (ascii ''qualityProxy'') (JFloat (Fin 0))) = Inr (Fin (19 / 20))"
    "py_float no_parse (py_get_default
     [(ascii ''qualityProxy'', JFloat (Fin (19 / 20))), (ascii ''floorUnmetRate'', JFloat (Fin (1 / 100))),
      (ascii ''injectionDroppedRate'', JFloat (Fin (2 / 25))), (ascii ''zoneAdaptationMoveRatio'', JFloat (Fin (1 / 50)))]
     (ascii ''floorUnmetRate'') (JFloat (Fin 0))) = Inr (Fin (1 / 100))"
    "py_float no_parse (py_get_default
     [(ascii ''qualityProxy'', JFloat (Fin (19 / 20))), (ascii ''floorUnmetRate'', JFloat (Fin (1 / 100))),
      (ascii ''injectionDroppedRate'', JFloat (Fin (2 / 25))), (ascii ''zoneAdaptationMoveRatio'', JFloat (Fin (1 / 50)))]
     (ascii ''injectionDroppedRate'') (JFloat (Fin 0))) = Inr (Fin (2 / 25))"
    "py_float no_parse (py_get_default
     [(ascii ''qualityProxy'', JFloat (Fin (19 / 20))), (ascii ''floorUnmetRate'', JFloat (Fin (1 / 100))),
      (ascii ''injectionDroppedRate'', JFloat (Fin (2 / 25))), (ascii ''zoneAdaptationMoveRatio'', JFloat (Fin (1 / 50)))]
     (ascii ''zoneAdaptationMoveRatio'') (JFloat (Fin 0))) = Inr (Fin (1 / 50))"
    by (simp_all add: py_get_default_def)
  show ?thesis
    using passthrough_implies_hybrid [OF c] by (simp add: double_defs)
qed


section \<open>Metric Accumulator: the time window\<close>

lemma fold_err_filter:
  assumes "\<And>s x. \<not> P x \<Longrightarrow> f s x = Inr s" and "\<And>s x. P x \<Longrightarrow> f s x = g s x"
  shows "fold_err f s xs = fold_err g s (filter P xs)"
proof (induction xs arbitrary: s)
  case Nil
  show ?case by simp
next
  case (Cons x xs)
  show ?case
  proof (cases "P x")
    case True
    then show ?thesis using assms(2) [OF True] Cons.IH by (simp add: bind_err_def split: sum.splits)
  next
    case False
    then show ?thesis using assms(1) [OF False] Cons.IH by (simp add: bind_err_def)
  qed
qed

lemma count_events_filter:
  "count_events c b events = fold_err apply_event b (filter (in_window c) events)"
  unfolding count_events_def
  by (rule fold_err_filter) (simp_all add: count_event_def)

lemma process_file_map_of:
  assumes "events \<noteq> []"
    and "count_events c (case map_of g (session_bucket events) of Some b \<Rightarrow> b | None \<Rightarrow> zero_bucket) events
          = Inr b'"
  shows "\<exists>g'. process_file c g events = Inr g' \<and> map_of g' = (map_of g)(session_bucket events \<mapsto> b')"
  using assms by (simp add: process_file_def Let_def bind_err_def AList.update_conv')

text \<open>
  Claim C6, as stated, fails in two ways. A timestamp that is a JSON boolean passes
  \<^verbatim>\<open>isinstance(timestamp, (int, float))\<close> and reads as 1 or 0, so it is counted when the
  cutoff is not later than that. A NaN timestamp, which \<^verbatim>\<open>json.loads\<close> accepts, is a
  float for which \<^verbatim>\<open>timestamp < cutoff_ms\<close> is false, so it is counted at every cutoff
  although it is not at or after the cutoff.
\<close>

theorem time_window_counterexample:
  "count_event 0 zero_bucket
       [(ascii ''timestamp'', JBool True), (ascii ''type'', JStr (ascii ''context_injected''))]
     = Inr (zero_bucket\<lparr>plans := 1, injected_count := 1\<rparr>)
   \<and> count_event 1700000000000 zero_bucket
       [(ascii ''timestamp'', JFloat NaN), (ascii ''type'', JStr (ascii ''context_injected''))]
     = Inr (zero_bucket\<lparr>plans := 1, injected_count := 1\<rparr>)
   \<and> \<not> f_le (Fin 1700000000000) NaN
   \<and> zero_bucket\<lparr>plans := 1, injected_count := 1\<rparr> \<noteq> zero_bucket"
  by (simp add: count_event_def in_window_def apply_event_def py_get_def bind_err_def
      zero_bucket_def round_overflow_def float_limit_def)

text \<open>
  Claim C6, amended. An event is counted exactly when its timestamp passes
  \<^verbatim>\<open>isinstance(timestamp, (int, float))\<close> and \<^verbatim>\<open>timestamp < cutoff\<close> is false. So an event
  changes no counter when its timestamp is missing, is \<^verbatim>\<open>null\<close>, a string, a list or a
  mapping, or is a number below the cutoff (minus infinity included); it is counted when
  the timestamp is an integer or finite float at or above the cutoff, plus infinity, or
  NaN; a boolean timestamp reads as the number 1 or 0 and is counted exactly when that
  is at or above the cutoff. Counting a session is counting its in-window events, and the
  bucket the counts go to is keyed by \<^verbatim>\<open>session_bucket\<close> of the whole event list, events
  outside the window included.
\<close>

theorem time_window:
  "(map_of e (ascii ''timestamp'') = None \<longrightarrow> count_event c b e = Inr b)
   \<and> (py_get e (ascii ''timestamp'') = JNull \<longrightarrow> count_event c b e = Inr b)
   \<and> (py_get e (ascii ''timestamp'') = JStr s \<longrightarrow> count_event c b e = Inr b)
   \<and> (py_get e (ascii ''timestamp'') = JList xs \<longrightarrow> count_event c b e = Inr b)
   \<and> (py_get e (ascii ''timestamp'') = JDict d \<longrightarrow> count_event c b e = Inr b)
   \<and> (py_get e (ascii ''timestamp'') = JInt n \<longrightarrow>
         count_event c b e = (if c \<le> n then apply_event b e else Inr b))
   \<and> (py_get e (ascii ''timestamp'') = JFloat (Fin r) \<longrightarrow>
         count_event c b e = (if real_of_int c \<le> r then apply_event b e else Inr b))
   \<and> (py_get e (ascii ''timestamp'') = JFloat PInf \<longrightarrow> count_event c b e = apply_event b e)
   \<and> (py_get e (ascii ''timestamp'') = JFloat NInf \<longrightarrow> count_event c b e = Inr b)
   \<and> (py_get e (ascii ''timestamp'') = JFloat NaN \<longrightarrow> count_event c b e = apply_event b e)
   \<and> (py_get e (ascii ''timestamp'') = JBool x \<longrightarrow>
         count_event c b e = (if c \<le> (if x then 1 else 0) then apply_event b e else Inr b))
   \<and> count_events c b events = fold_err apply_event b (filter (in_window c) events)
   \<and> (events \<noteq> []
        \<and> count_events c (case map_of g (session_bucket events) of Some b \<Rightarrow> b | None \<Rightarrow> zero_bucket) events
            = Inr b'
       \<longrightarrow> (\<exists>g'. process_file c g events = Inr g'
                \<and> map_of g' = (map_of g)(session_bucket events \<mapsto> b')))"
proof -
  have 1: "map_of e (ascii ''timestamp'') = None \<longrightarrow> count_event c b e = Inr b"
    by (simp add: count_event_def in_window_def py_get_def)
  have 2: "py_get e (ascii ''timestamp'') = JNull \<longrightarrow> count_event c b e = Inr b"
    by (simp add: count_event_def in_window_def)
  have 3: "py_get e (ascii ''timestamp'') = JStr s \<longrightarrow> count_event c b e = Inr b"
    by (simp add: count_event_def in_window_def)
  have 4: "py_get e (ascii ''timestamp'') = JList xs \<longrightarrow> count_event c b e = Inr b"
    by (simp add: count_event_def in_window_def)
  have 5: "py_get e (ascii ''timestamp'') = JDict d \<longrightarrow> count_event c b e = Inr b"
    by (simp add: count_event_def in_window_def)
  have 6: "py_get e (ascii ''timestamp'') = JInt n \<longrightarrow>
         count_event c b e = (if c \<le> n then apply_event b e else Inr b)"
    by (auto simp: count_event_def in_window_def)
  have 7: "py_get e (ascii ''timestamp'') = JFloat (Fin r) \<longrightarrow>
         count_event c b e = (if real_of_int c \<le> r then apply_event b e else Inr b)"
    by (auto simp: count_event_def in_window_def)
  have 8: "py_get e (ascii ''timestamp'') = JFloat PInf \<longrightarrow> count_event c b e = apply_event b e"
    by (simp add: count_event_def in_window_def)
  have 9: "py_get e (ascii ''timestamp'') = JFloat NInf \<longrightarrow> count_event c b e = Inr b"
    by (simp add: count_event_def in_window_def)
  have 10: "py_get e (ascii ''timestamp'') = JFloat NaN \<longrightarrow> count_event c b e = apply_event b e"
    by (simp add: count_event_def in_window_def)
  have 11: "py_get e (ascii ''timestamp'') = JBool x \<longrightarrow>
         count_event c b e = (if c \<le> (if x then 1 else 0) then apply_event b e else Inr b)"
    by (auto simp: count_event_def in_window_def)
  have 12: "count_events c b events = fold_err apply_event b (filter (in_window c) events)"
    by (rule count_events_filter)
  have 13: "events \<noteq> []
        \<and> count_events c (case map_of g (session_bucket events) of Some b \<Rightarrow> b | None \<Rightarrow> zero_bucket) events
            = Inr b'
       \<longrightarrow> (\<exists>g'. process_file c g events = Inr g'
                \<and> map_of g' = (map_of g)(session_bucket events \<mapsto> b'))"
    using process_file_map_of by blast
  from 1 2 3 4 5 6 7 8 9 10 11 12 13 show ?thesis by blast
qed

theorem time_window_witness:
  "accumulate 50
      [[ [(ascii ''timestamp'', JInt 1), (ascii ''type'', JStr (ascii ''cost_update'')),
          (ascii ''payload'', JDict [(ascii ''model'', JStr (ascii ''m1''))])],
         [(ascii ''type'', JStr (ascii ''context_injected''))],
         [(ascii ''timestamp'', JStr (ascii ''60'')), (ascii ''type'', JStr (ascii ''context_injected''))],
         [(ascii ''timestamp'', JInt 49), (ascii ''type'', JStr (ascii ''context_injected''))],
         [(ascii ''timestamp'', JInt 50), (ascii ''type'', JStr (ascii ''context_injected''))] ]]
     = Inr [((ascii ''m1'', ascii ''(none)''), zero_bucket\<lparr>plans := 1, injected_count := 1\<rparr>)]
   \<and> count_event 50 zero_bucket
        [(ascii ''timestamp'', JInt 49), (ascii ''type'', JStr (ascii ''context_injected''))]
       = Inr zero_bucket
   \<and> count_event 50 zero_bucket
        [(ascii ''timestamp'', JInt 50), (ascii ''type'', JStr (ascii ''context_injected''))]
       = Inr (zero_bucket\<lparr>plans := 1, injected_count := 1\<rparr>)"
proof -
  have ts: "py_get [(ascii ''timestamp'', JInt 49), (ascii ''type'', JStr (ascii ''context_injected''))]
      (ascii ''timestamp'') = JInt 49"
    by (simp add: py_get_def)
  have ts': "py_get [(ascii ''timestamp'', JInt 50), (ascii ''type'', JStr (ascii ''context_injected''))]
      (ascii ''timestamp'') = JInt 50"
    by (simp add: py_get_def)
  have m1: "strip (ascii ''m1'') = ascii ''m1''"
    by (simp add: strip_def is_space_def ascii_def)
  have acc: "accumulate 50
      [[ [(ascii ''timestamp'', JInt 1), (ascii ''type'', JStr (ascii ''cost_update'')),
          (ascii ''payload'', JDict [(ascii ''model'', JStr (ascii ''m1''))])],
         [(ascii ''type'', JStr (ascii ''context_injected''))],
         [(ascii ''timestamp'', JStr (ascii ''60'')), (ascii ''type'', JStr (ascii ''context_injected''))],
         [(ascii ''timestamp'', JInt 49), (ascii ''type'', JStr (ascii ''context_injected''))],
         [(ascii ''timestamp'', JInt 50), (ascii ''type'', JStr (ascii ''context_injected''))] ]]
     = Inr [((ascii ''m1'', ascii ''(none)''), zero_bucket\<lparr>plans := 1, injected_count := 1\<rparr>)]"
    by (simp add: accumulate_def process_file_def session_bucket_def py_get_def label_candidate_def m1
      UNKNOWN_MODEL_def NONE_TASK_CLASS_def count_events_def count_event_def in_window_def
      apply_event_def bind_err_def zero_bucket_def round_overflow_def float_limit_def)
  have ap: "apply_event zero_bucket
        [(ascii ''timestamp'', JInt 50), (ascii ''type'', JStr (ascii ''context_injected''))]
      = Inr (zero_bucket\<lparr>plans := 1, injected_count := 1\<rparr>)"
    by (simp add: apply_event_def py_get_def bind_err_def zero_bucket_def round_overflow_def
        float_limit_def)
  show ?thesis
    using time_window [of "[(ascii ''timestamp'', JInt 49), (ascii ''type'', JStr (ascii ''context_injected''))]"
        50 zero_bucket "[]" "[]" "[]" 49 0 False "[]" "[]" zero_bucket]
      time_window [of "[(ascii ''timestamp'', JInt 50), (ascii ''type'', JStr (ascii ''context_injected''))]"
        50 zero_bucket "[]" "[]" "[]" 50 0 False "[]" "[]" zero_bucket]
    unfolding ts ts' acc ap
    by simp
qed


section \<open>Duplicate-content drops\<close>

text \<open>A drop event whose reason is \<open>duplicate_content\<close> changes no counter.\<close>

lemma duplicate_drop_no_effect:
  assumes "py_get e (ascii ''type'') = JStr (ascii ''context_injection_dropped'')"
    and "py_get e (ascii ''payload'') = JDict p"
    and "py_get p (ascii ''reason'') = JStr (ascii ''duplicate_content'')"
  shows "apply_event b e = Inr b \<and> count_event c b e = Inr b"
  using assms by (simp add: count_event_def apply_event_def)

text \<open>
  Claim C3 at a session file that holds one in-window drop event with reason
  \<open>duplicate_content\<close>: \<^verbatim>\<open>grouped[(model, task_class)]\<close> is read before any event is
  looked at, so the \<^verbatim>\<open>defaultdict\<close> gets the key \<open>("(unknown)", "(none)")\<close> with
  all-zero counters, and the summary document lists that bucket.
\<close>

theorem duplicate_only_file_creates_bucket:
  "accumulate 0
      [[ [(ascii ''timestamp'', JInt 5), (ascii ''type'', JStr (ascii ''context_injection_dropped'')),
          (ascii ''payload'', JDict [(ascii ''reason'', JStr (ascii ''duplicate_content''))])] ]]
     = Inr [((ascii ''(unknown)'', ascii ''(none)''), zero_bucket)]
   \<and> map_sum id snd (build_report (\<lambda>k x. []) (ascii ''2026-11-04'') 7 0
        (Some [[ [(ascii ''timestamp'', JInt 5), (ascii ''type'', JStr (ascii ''context_injection_dropped'')),
                  (ascii ''payload'', JDict [(ascii ''reason'', JStr (ascii ''duplicate_content''))])] ]]))
     = Inr (JDict [(ascii ''generatedAt'', JStr (ascii ''2026-11-04'')), (ascii ''lookbackDays'', JInt 7),
          (ascii ''buckets'', JList [JDict
             [(ascii ''model'', JStr (ascii ''(unknown)'')),
              (ascii ''taskClass'', JStr (ascii ''(none)'')),
              (ascii ''floorUnmetRate'', JFloat (Fin 0)),
              (ascii ''injectionDroppedRate'', JFloat (Fin 0)),
              (ascii ''avgInjectionTokens'', JFloat (Fin 0)),
              (ascii ''zoneAdaptationMoveRatio'', JFloat (Fin 0)),
              (ascii ''verificationPassRate'', JFloat (Fin 0)),
              (ascii ''qualityProxy'', JFloat (Fin 0)),
              (ascii ''samples'', JDict [(ascii ''plans'', JInt 0), (ascii ''verification'', JInt 0)])]])])"
proof -
  have acc: "accumulate 0
      [[ [(ascii ''timestamp'', JInt 5), (ascii ''type'', JStr (ascii ''context_injection_dropped'')),
          (ascii ''payload'', JDict [(ascii ''reason'', JStr (ascii ''duplicate_content''))])] ]]
     = Inr [((ascii ''(unknown)'', ascii ''(none)''), zero_bucket)]"
    by (simp add: accumulate_def process_file_def session_bucket_def py_get_def label_candidate_def
      UNKNOWN_MODEL_def NONE_TASK_CLASS_def count_events_def count_event_def in_window_def
      apply_event_def bind_err_def)
  show ?thesis
    unfolding build_report_def Let_def option.case acc
    by (simp add: bind_err_def compute_rates_spec spec_rates_def zero_bucket_def
        summary_payload_def bucket_json_def py_trunc_def py_max1_def round_overflow_def float_limit_def)
qed


section \<open>Session Attributor\<close>

lemma first_res_filter:
  "first_res ty key s es =
     (case filter (\<lambda>l. l \<noteq> s) (List.map_filter (event_label ty key) es) of [] \<Rightarrow> s | l # _ \<Rightarrow> l)"
  by (induction es) (auto simp: List.map_filter_simps split: option.splits)

lemma first_res_step:
  "(if step_label ty key s e cur = s then first_res ty key s es else step_label ty key s e cur)
   = (if cur = s then first_res ty key s (e # es) else cur)"
  by (auto simp: step_label_def split: option.splits)

lemma step_label_not_dict:
  "\<forall>p. py_get e (ascii ''payload'') \<noteq> JDict p \<Longrightarrow> step_label ty key s e cur = cur"
  by (cases "py_get e (ascii ''payload'')") (auto simp: step_label_def event_label_def)

lemma step_label_dict:
  "py_get e (ascii ''payload'') = JDict p \<Longrightarrow>
   step_label ty key s e cur =
     (if cur = s \<and> py_get e (ascii ''type'') = JStr ty then label_candidate p key cur else cur)"
  by (cases "py_get p key") (simp_all add: step_label_def event_label_def label_candidate_def)

lemma session_scan_not_dict:
  "\<forall>p. py_get e (ascii ''payload'') \<noteq> JDict p \<Longrightarrow> session_scan (e # es) (m, t) = session_scan es (m, t)"
  by (cases "py_get e (ascii ''payload'')") auto

lemma session_scan_full_not_dict:
  "\<forall>p. py_get e (ascii ''payload'') \<noteq> JDict p \<Longrightarrow>
   session_scan_full (e # es) (m, t) = session_scan_full es (m, t)"
  by (cases "py_get e (ascii ''payload'')") auto

lemma session_scan_dict:
  "py_get e (ascii ''payload'') = JDict p \<Longrightarrow>
   session_scan (e # es) (m, t) =
     (if step_label (ascii ''cost_update'') (ascii ''model'') UNKNOWN_MODEL e m \<noteq> UNKNOWN_MODEL
         \<and> step_label (ascii ''skill_activated'') (ascii ''skillName'') NONE_TASK_CLASS e t \<noteq> NONE_TASK_CLASS
      then (step_label (ascii ''cost_update'') (ascii ''model'') UNKNOWN_MODEL e m,
            step_label (ascii ''skill_activated'') (ascii ''skillName'') NONE_TASK_CLASS e t)
      else session_scan es (step_label (ascii ''cost_update'') (ascii ''model'') UNKNOWN_MODEL e m,
            step_label (ascii ''skill_activated'') (ascii ''skillName'') NONE_TASK_CLASS e t))"
  by (simp add: step_label_dict Let_def)

lemma session_scan_full_dict:
  "py_get e (ascii ''payload'') = JDict p \<Longrightarrow>
   session_scan_full (e # es) (m, t) =
     session_scan_full es (step_label (ascii ''cost_update'') (ascii ''model'') UNKNOWN_MODEL e m,
            step_label (ascii ''skill_activated'') (ascii ''skillName'') NONE_TASK_CLASS e t)"
  by (simp add: step_label_dict Let_def)

lemma session_scan_first_res:
  "session_scan es (m, t) =
     (if m = UNKNOWN_MODEL then first_res (ascii ''cost_update'') (ascii ''model'') UNKNOWN_MODEL es else m,
      if t = NONE_TASK_CLASS then first_res (ascii ''skill_activated'') (ascii ''skillName'') NONE_TASK_CLASS es else t)"
proof (induction es arbitrary: m t)
  case Nil
  show ?case by simp
next
  case (Cons e es)
  let ?m = "step_label (ascii ''cost_update'') (ascii ''model'') UNKNOWN_MODEL e m"
  let ?t = "step_label (ascii ''skill_activated'') (ascii ''skillName'') NONE_TASK_CLASS e t"
  have "session_scan (e # es) (m, t) =
      (if ?m = UNKNOWN_MODEL then first_res (ascii ''cost_update'') (ascii ''model'') UNKNOWN_MODEL es else ?m,
       if ?t = NONE_TASK_CLASS then first_res (ascii ''skill_activated'') (ascii ''skillName'') NONE_TASK_CLASS es else ?t)"
  proof (cases "\<exists>p. py_get e (ascii ''payload'') = JDict p")
    case True
    then obtain p where p: "py_get e (ascii ''payload'') = JDict p" by blast
    show ?thesis
      unfolding session_scan_dict [OF p] using Cons.IH [of ?m ?t] by simp
  next
    case False
    then have nd: "\<forall>p. py_get e (ascii ''payload'') \<noteq> JDict p" by blast
    show ?thesis
      unfolding session_scan_not_dict [OF nd] step_label_not_dict [OF nd]
      by (rule Cons.IH)
  qed
  then show ?case by (simp only: first_res_step)
qed

lemma session_scan_full_first_res:
  "session_scan_full es (m, t) =
     (if m = UNKNOWN_MODEL then first_res (ascii ''cost_update'') (ascii ''model'') UNKNOWN_MODEL es else m,
      if t = NONE_TASK_CLASS then first_res (ascii ''skill_activated'') (ascii ''skillName'') NONE_TASK_CLASS es else t)"
proof (induction es arbitrary: m t)
  case Nil
  show ?case by simp
next
  case (Cons e es)
  let ?m = "step_label (ascii ''cost_update'') (ascii ''model'') UNKNOWN_MODEL e m"
  let ?t = "step_label (ascii ''skill_activated'') (ascii ''skillName'') NONE_TASK_CLASS e t"
  have "session_scan_full (e # es) (m, t) =
      (if ?m = UNKNOWN_MODEL then first_res (ascii ''cost_update'') (ascii ''model'') UNKNOWN_MODEL es else ?m,
       if ?t = NONE_TASK_CLASS then first_res (ascii ''skill_activated'') (ascii ''skillName'') NONE_TASK_CLASS es else ?t)"
  proof (cases "\<exists>p. py_get e (ascii ''payload'') = JDict p")
    case True
    then obtain p where p: "py_get e (ascii ''payload'') = JDict p" by blast
    show ?thesis
      unfolding session_scan_full_dict [OF p] by (rule Cons.IH)
  next
    case False
    then have nd: "\<forall>p. py_get e (ascii ''payload'') \<noteq> JDict p" by blast
    show ?thesis
      unfolding session_scan_full_not_dict [OF nd] step_label_not_dict [OF nd]
      by (rule Cons.IH)
  qed
  then show ?case by (simp only: first_res_step)
qed

lemma filter_all_id: "(\<forall>x \<in> set xs. P x) \<Longrightarrow> filter P xs = xs"
  by (induction xs) simp_all

lemma latest_labels_agree:
  assumes "\<forall>e \<in> set events. event_label ty key e \<noteq> Some sentinel"
  shows "latest_resolving_label ty key sentinel events = latest_label ty key sentinel events"
proof -
  have "\<forall>l \<in> set (List.map_filter (event_label ty key) (rev events)). l \<noteq> sentinel"
    using assms by (auto simp: List.map_filter_def)
  then have "filter (\<lambda>l. l \<noteq> sentinel) (List.map_filter (event_label ty key) (rev events))
      = List.map_filter (event_label ty key) (rev events)"
    by (rule filter_all_id)
  then show ?thesis by (simp add: latest_resolving_label_def latest_label_def)
qed

text \<open>
  Claim C5, as stated, fails when the most recent cost-update event carries the model
  string \<open>(unknown)\<close>, the sentinel itself: the loop still takes the model for unresolved
  and an older cost-update event sets it.
\<close>

theorem session_bucket_counterexample:
  "session_bucket
      [ [(ascii ''type'', JStr (ascii ''cost_update'')), (ascii ''payload'', JDict [(ascii ''model'', JStr (ascii ''gpt''))])],
        [(ascii ''type'', JStr (ascii ''cost_update'')), (ascii ''payload'', JDict [(ascii ''model'', JStr (ascii ''(unknown)''))])] ]
     = (ascii ''gpt'', ascii ''(none)'')
   \<and> latest_label (ascii ''cost_update'') (ascii ''model'') UNKNOWN_MODEL
      [ [(ascii ''type'', JStr (ascii ''cost_update'')), (ascii ''payload'', JDict [(ascii ''model'', JStr (ascii ''gpt''))])],
        [(ascii ''type'', JStr (ascii ''cost_update'')), (ascii ''payload'', JDict [(ascii ''model'', JStr (ascii ''(unknown)''))])] ]
     = ascii ''(unknown)''"
proof -
  have s1: "strip (ascii ''gpt'') = ascii ''gpt''"
    by (simp add: strip_def is_space_def ascii_def)
  have s2: "strip (ascii ''(unknown)'') = ascii ''(unknown)''"
    by (simp add: strip_def is_space_def ascii_def)
  show ?thesis
    by (simp add: session_bucket_def latest_label_def event_label_def List.map_filter_simps
        py_get_def label_candidate_def s1 s2 UNKNOWN_MODEL_def NONE_TASK_CLASS_def)
qed

text \<open>
  Claim C5, amended. For every session event list \<^verbatim>\<open>session_bucket\<close> returns the trimmed
  \<open>model\<close> string of the most recent cost-update event whose payload is a mapping with a
  non-empty trimmed string \<open>model\<close> that differs from the sentinel \<open>(unknown)\<close> (the
  sentinel if there is none), and likewise the \<open>skillName\<close> of the most recent
  skill-activation event with sentinel \<open>(none)\<close>. Stopping as soon as both labels are
  resolved gives the result of the scan over all events. When no event offers a label
  equal to its sentinel, the result is the claim's: the label of the most recent event
  that offers one.
\<close>

theorem session_bucket_latest:
  "session_bucket events =
     (latest_resolving_label (ascii ''cost_update'') (ascii ''model'') UNKNOWN_MODEL events,
      latest_resolving_label (ascii ''skill_activated'') (ascii ''skillName'') NONE_TASK_CLASS events)
   \<and> session_bucket events = session_scan_full (rev events) (UNKNOWN_MODEL, NONE_TASK_CLASS)
   \<and> ((\<forall>e \<in> set events. event_label (ascii ''cost_update'') (ascii ''model'') e \<noteq> Some UNKNOWN_MODEL
                         \<and> event_label (ascii ''skill_activated'') (ascii ''skillName'') e \<noteq> Some NONE_TASK_CLASS)
        \<longrightarrow> session_bucket events =
              (latest_label (ascii ''cost_update'') (ascii ''model'') UNKNOWN_MODEL events,
               latest_label (ascii ''skill_activated'') (ascii ''skillName'') NONE_TASK_CLASS events))"
proof -
  have a: "session_bucket events =
     (latest_resolving_label (ascii ''cost_update'') (ascii ''model'') UNKNOWN_MODEL events,
      latest_resolving_label (ascii ''skill_activated'') (ascii ''skillName'') NONE_TASK_CLASS events)"
    by (simp add: session_bucket_def session_scan_first_res first_res_filter latest_resolving_label_def)
  have b: "session_bucket events = session_scan_full (rev events) (UNKNOWN_MODEL, NONE_TASK_CLASS)"
    by (simp only: session_bucket_def session_scan_first_res session_scan_full_first_res)
  have c: "session_bucket events =
              (latest_label (ascii ''cost_update'') (ascii ''model'') UNKNOWN_MODEL events,
               latest_label (ascii ''skill_activated'') (ascii ''skillName'') NONE_TASK_CLASS events)"
    if "\<forall>e \<in> set events. event_label (ascii ''cost_update'') (ascii ''model'') e \<noteq> Some UNKNOWN_MODEL
                         \<and> event_label (ascii ''skill_activated'') (ascii ''skillName'') e \<noteq> Some NONE_TASK_CLASS"
  proof -
    have "latest_resolving_label (ascii ''cost_update'') (ascii ''model'') UNKNOWN_MODEL events
        = latest_label (ascii ''cost_update'') (ascii ''model'') UNKNOWN_MODEL events"
      using that by (intro latest_labels_agree) blast
    moreover have "latest_resolving_label (ascii ''skill_activated'') (ascii ''skillName'') NONE_TASK_CLASS events
        = latest_label (ascii ''skill_activated'') (ascii ''skillName'') NONE_TASK_CLASS events"
      using that by (intro latest_labels_agree) blast
    ultimately show ?thesis using a by simp
  qed
  from a b c show ?thesis by blast
qed

theorem session_bucket_latest_witness:
  "session_bucket
      [ [(ascii ''type'', JStr (ascii ''skill_activated'')), (ascii ''payload'', JDict [(ascii ''skillName'', JStr (ascii ''old''))])],
        [(ascii ''type'', JStr (ascii ''cost_update'')), (ascii ''payload'', JDict [(ascii ''model'', JStr (160 # ascii ''m1'' @ [32]))])],
        [(ascii ''type'', JStr (ascii ''skill_activated'')), (ascii ''payload'', JDict [(ascii ''skillName'', JStr (ascii ''review''))])],
        [(ascii ''type'', JStr (ascii ''cost_update'')), (ascii ''payload'', JDict [(ascii ''model'', JStr [32, 160])])],
        [(ascii ''type'', JStr (ascii ''cost_update'')), (ascii ''payload'', JStr (ascii ''m3''))] ]
     = (ascii ''m1'', ascii ''review'')
   \<and> latest_label (ascii ''cost_update'') (ascii ''model'') UNKNOWN_MODEL
      [ [(ascii ''type'', JStr (ascii ''skill_activated'')), (ascii ''payload'', JDict [(ascii ''skillName'', JStr (ascii ''old''))])],
        [(ascii ''type'', JStr (ascii ''cost_update'')), (ascii ''payload'', JDict [(ascii ''model'', JStr (160 # ascii ''m1'' @ [32]))])],
        [(ascii ''type'', JStr (ascii ''skill_activated'')), (ascii ''payload'', JDict [(ascii ''skillName'', JStr (ascii ''review''))])],
        [(ascii ''type'', JStr (ascii ''cost_update'')), (ascii ''payload'', JDict [(ascii ''model'', JStr [32, 160])])],
        [(ascii ''type'', JStr (ascii ''cost_update'')), (ascii ''payload'', JStr (ascii ''m3''))] ]
     = ascii ''m1''"
proof -
  have s1: "strip (160 # ascii ''m1'' @ [32]) = ascii ''m1''"
    by (simp add: strip_def is_space_def ascii_def)
  have s2: "strip [32, 160] = []"
    by (simp add: strip_def is_space_def)
  have s3: "strip (ascii ''old'') = ascii ''old''"
    by (simp add: strip_def is_space_def ascii_def)
  have s4: "strip (ascii ''review'') = ascii ''review''"
    by (simp add: strip_def is_space_def ascii_def)
  have l: "latest_label (ascii ''cost_update'') (ascii ''model'') UNKNOWN_MODEL
      [ [(ascii ''type'', JStr (ascii ''skill_activated'')), (ascii ''payload'', JDict [(ascii ''skillName'', JStr (ascii ''old''))])],
        [(ascii ''type'', JStr (ascii ''cost_update'')), (ascii ''payload'', JDict [(ascii ''model'', JStr (160 # ascii ''m1'' @ [32]))])],
        [(ascii ''type'', JStr (ascii ''skill_activated'')), (ascii ''payload'', JDict [(ascii ''skillName'', JStr (ascii ''review''))])],
        [(ascii ''type'', JStr (ascii ''cost_update'')), (ascii ''payload'', JDict [(ascii ''model'', JStr [32, 160])])],
        [(ascii ''type'', JStr (ascii ''cost_update'')), (ascii ''payload'', JStr (ascii ''m3''))] ]
     = ascii ''m1''"
    by (simp add: latest_label_def event_label_def List.map_filter_simps py_get_def s1 s2 s3 s4)
  have lr: "latest_resolving_label (ascii ''cost_update'') (ascii ''model'') UNKNOWN_MODEL
      [ [(ascii ''type'', JStr (ascii ''skill_activated'')), (ascii ''payload'', JDict [(ascii ''skillName'', JStr (ascii ''old''))])],
        [(ascii ''type'', JStr (ascii ''cost_update'')), (ascii ''payload'', JDict [(ascii ''model'', JStr (160 # ascii ''m1'' @ [32]))])],
        [(ascii ''type'', JStr (ascii ''skill_activated'')), (ascii ''payload'', JDict [(ascii ''skillName'', JStr (ascii ''review''))])],
        [(ascii ''type'', JStr (ascii ''cost_update'')), (ascii ''payload'', JDict [(ascii ''model'', JStr [32, 160])])],
        [(ascii ''type'', JStr (ascii ''cost_update'')), (ascii ''payload'', JStr (ascii ''m3''))] ]
     = ascii ''m1''"
    by (simp add: latest_resolving_label_def event_label_def List.map_filter_simps py_get_def
        s1 s2 s3 s4 UNKNOWN_MODEL_def)
  have sr: "latest_resolving_label (ascii ''skill_activated'') (ascii ''skillName'') NONE_TASK_CLASS
      [ [(ascii ''type'', JStr (ascii ''skill_activated'')), (ascii ''payload'', JDict [(ascii ''skillName'', JStr (ascii ''old''))])],
        [(ascii ''type'', JStr (ascii ''cost_update'')), (ascii ''payload'', JDict [(ascii ''model'', JStr (160 # ascii ''m1'' @ [32]))])],
        [(ascii ''type'', JStr (ascii ''skill_activated'')), (ascii ''payload'', JDict [(ascii ''skillName'', JStr (ascii ''review''))])],
        [(ascii ''type'', JStr (ascii ''cost_update'')), (ascii ''payload'', JDict [(ascii ''model'', JStr [32, 160])])],
        [(ascii ''type'', JStr (ascii ''cost_update'')), (ascii ''payload'', JStr (ascii ''m3''))] ]
     = ascii ''review''"
    by (simp add: latest_resolving_label_def event_label_def List.map_filter_simps py_get_def
        s1 s2 s3 s4 NONE_TASK_CLASS_def)
  show ?thesis
    using session_bucket_latest [of
     "[ [(ascii ''type'', JStr (ascii ''skill_activated'')), (ascii ''payload'', JDict [(ascii ''skillName'', JStr (ascii ''old''))])],
        [(ascii ''type'', JStr (ascii ''cost_update'')), (ascii ''payload'', JDict [(ascii ''model'', JStr (160 # ascii ''m1'' @ [32]))])],
        [(ascii ''type'', JStr (ascii ''skill_activated'')), (ascii ''payload'', JDict [(ascii ''skillName'', JStr (ascii ''review''))])],
        [(ascii ''type'', JStr (ascii ''cost_update'')), (ascii ''payload'', JDict [(ascii ''model'', JStr [32, 160])])],
        [(ascii ''type'', JStr (ascii ''cost_update'')), (ascii ''payload'', JStr (ascii ''m3''))] ]"]
    unfolding l lr sr by simp
qed


section \<open>Override Builder\<close>

lemma observer_bucket_json: "observer_bucket (bucket_json key values r)"
  by (simp add: observer_bucket_def bucket_json_def py_get_def is_jstr_def is_jfloat_def is_jint_def)

lemma py_get_default_present: "py_get d k \<noteq> JNull \<Longrightarrow> py_get_default d k dflt = py_get d k"
  by (auto simp: py_get_def py_get_default_def split: option.splits)

lemma is_jfloat_num: "is_jfloat v \<Longrightarrow> \<exists>x. v = JFloat x"
  by (cases v) (simp_all add: is_jfloat_def)

lemma is_jint_num: "is_jint v \<Longrightarrow> \<exists>x. v = JInt x"
  by (cases v) (simp_all add: is_jint_def)

lemma metric_float:
  assumes "is_jfloat (py_get d k)"
  shows "\<exists>x. py_float rt (py_get_default d k (JFloat (Fin 0))) = Inr x"
proof -
  from assms obtain x where x: "py_get d k = JFloat x" using is_jfloat_num by blast
  then have "py_get_default d k (JFloat (Fin 0)) = JFloat x"
    by (simp add: py_get_default_present)
  then show ?thesis by simp
qed

lemma observer_choose_arm:
  assumes "observer_bucket (JDict d)"
  shows "\<exists>a. choose_arm rt d = Inr a"
proof -
  obtain f where f: "py_float rt (py_get_default d (ascii ''floorUnmetRate'') (JFloat (Fin 0))) = Inr f"
    using assms metric_float [of d "(ascii ''floorUnmetRate'')" rt] by (auto simp: observer_bucket_def)
  obtain dr where dr: "py_float rt (py_get_default d (ascii ''injectionDroppedRate'') (JFloat (Fin 0))) = Inr dr"
    using assms metric_float [of d "(ascii ''injectionDroppedRate'')" rt] by (auto simp: observer_bucket_def)
  obtain q where q: "py_float rt (py_get_default d (ascii ''qualityProxy'') (JFloat (Fin 0))) = Inr q"
    using assms metric_float [of d "(ascii ''qualityProxy'')" rt] by (auto simp: observer_bucket_def)
  obtain z where z: "py_float rt (py_get_default d (ascii ''zoneAdaptationMoveRatio'') (JFloat (Fin 0))) = Inr z"
    using assms metric_float [of d "(ascii ''zoneAdaptationMoveRatio'')" rt] by (auto simp: observer_bucket_def)
  show ?thesis
    unfolding choose_arm_def f dr q z by (simp add: bind_err_def)
qed

lemma py_or_int: "py_int rt (py_or (JInt p) (JInt 0)) = Inr p"
  by (simp add: py_or_def)

lemma observer_bucket_plans:
  assumes "observer_bucket (JDict d)"
  shows "bucket_plans rt d = Inr (sample_plans (JDict d))"
proof -
  from assms obtain s where s: "py_get d (ascii ''samples'') = JDict s"
    by (auto simp: observer_bucket_def split: json.splits)
  with assms have "is_jint (py_get s (ascii ''plans''))" by (simp add: observer_bucket_def)
  then obtain p where p: "py_get s (ascii ''plans'') = JInt p" using is_jint_num by blast
  then have "py_get_default s (ascii ''plans'') (JInt 0) = JInt p" by (simp add: py_get_default_present)
  then show ?thesis using s p by (simp add: bucket_plans_def sample_plans_def py_or_int)
qed

lemma override_entries_ids:
  "list_all observer_bucket bs \<Longrightarrow>
   \<exists>es. override_entries rt now ex i bs = Inr es
      \<and> map oe_id es = map (\<lambda>j. ascii ''auto-'' @ str_nat (j + 1)) (qualifying i bs)"
proof (induction bs arbitrary: i)
  case Nil
  show ?case by simp
next
  case (Cons b bs)
  from Cons.prems have ob: "observer_bucket b" and rest: "list_all observer_bucket bs" by simp_all
  from ob obtain d where d: "b = JDict d" by (cases b) (simp_all add: observer_bucket_def)
  from Cons.IH [OF rest, of "i + 1"] obtain es where
    es: "override_entries rt now ex (i + 1) bs = Inr es"
    and ids: "map oe_id es = map (\<lambda>j. ascii ''auto-'' @ str_nat (j + 1)) (qualifying (i + 1) bs)"
    by blast
  have plans: "bucket_plans rt d = Inr (sample_plans b)"
    using ob unfolding d by (rule observer_bucket_plans)
  from ob obtain a where a: "choose_arm rt d = Inr a"
    unfolding d using observer_choose_arm by blast
  show ?case
    unfolding d override_entries.simps plans [unfolded d] a es
    using ids by (simp add: bind_err_def Let_def d)
qed


lemma str_nat_nonempty: "str_nat n \<noteq> []"
  by (subst str_nat.simps) simp

lemma str_nat_inj: "str_nat m = str_nat n \<Longrightarrow> m = n"
proof (induction m arbitrary: n rule: str_nat.induct)
  case (1 m)
  show ?case
  proof (cases "m < 10")
    case True
    then have sm: "str_nat m = [48 + m]" by (subst str_nat.simps) simp
    have "n < 10"
    proof (rule ccontr)
      assume "\<not> n < 10"
      then have "str_nat n = str_nat (n div 10) @ [48 + n mod 10]"
        by (subst str_nat.simps) simp
      with sm "1.prems" have "str_nat (n div 10) = []" by simp
      then show False using str_nat_nonempty by blast
    qed
    then have "str_nat n = [48 + n]" by (subst str_nat.simps) simp
    with sm "1.prems" show ?thesis by simp
  next
    case False
    then have sm: "str_nat m = str_nat (m div 10) @ [48 + m mod 10]"
      by (subst str_nat.simps) simp
    have nn: "\<not> n < 10"
    proof
      assume "n < 10"
      then have "str_nat n = [48 + n]" by (subst str_nat.simps) simp
      with sm "1.prems" have "str_nat (m div 10) = []" by simp
      then show False using str_nat_nonempty by blast
    qed
    then have sn: "str_nat n = str_nat (n div 10) @ [48 + n mod 10]"
      by (subst str_nat.simps) simp
    from sm sn "1.prems" have hd: "str_nat (m div 10) = str_nat (n div 10)"
      and last: "m mod 10 = n mod 10" by simp_all
    from "1.IH" [OF False hd] have dv: "m div 10 = n div 10" .
    note md = last
    have "m = 10 * (m div 10) + m mod 10" by simp
    also have "\<dots> = 10 * (n div 10) + n mod 10" using dv md by simp
    also have "\<dots> = n" by simp
    finally show ?thesis .
  qed
qed

lemma qualifying_ge: "j \<in> set (qualifying i bs) \<Longrightarrow> i \<le> j"
  by (induction bs arbitrary: i) (fastforce split: if_splits)+

lemma qualifying_distinct: "distinct (qualifying i bs)"
proof (induction bs arbitrary: i)
  case Nil
  show ?case by simp
next
  case (Cons b bs)
  have "i \<notin> set (qualifying (i + 1) bs)"
    using qualifying_ge [of i "i + 1" bs] by auto
  then show ?case using Cons.IH [of "i + 1"] by simp
qed

lemma qualifying_mem:
  "k < length bs \<Longrightarrow> (i + k \<in> set (qualifying i bs)) = (20 \<le> sample_plans (bs ! k))"
proof (induction bs arbitrary: i k)
  case Nil
  then show ?case by simp
next
  case (Cons b bs)
  show ?case
  proof (cases k)
    case 0
    have "i \<notin> set (qualifying (i + 1) bs)"
      using qualifying_ge [of i "i + 1" bs] by auto
    then show ?thesis using 0 by simp
  next
    case (Suc k')
    with Cons.prems have "k' < length bs" by simp
    from Cons.IH [OF this, of "i + 1"] show ?thesis using Suc by simp
  qed
qed

lemma qualifying_length: "length (qualifying i bs) = length (filter (\<lambda>b. 20 \<le> sample_plans b) bs)"
  by (induction bs arbitrary: i) simp_all

lemma count_distinct: "distinct xs \<Longrightarrow> length (filter (\<lambda>a. a = k) xs) = (if k \<in> set xs then 1 else 0)"
  by (induction xs) auto

lemma count_distinct_inj:
  assumes "distinct xs" and "\<And>a b. f a = f b \<Longrightarrow> a = b"
  shows "length (filter (\<lambda>y. y = f k) (map f xs)) = (if k \<in> set xs then 1 else 0)"
proof -
  have eq: "\<And>a. (f a = f k) = (a = k)" using assms(2) by blast
  have "filter (\<lambda>y. y = f k) (map f xs) = map f (filter (\<lambda>a. a = k) xs)"
    by (simp add: filter_map comp_def eq)
  then have "length (filter (\<lambda>y. y = f k) (map f xs)) = length (filter (\<lambda>a. a = k) xs)"
    by simp
  then show ?thesis using count_distinct [OF assms(1)] by simp
qed

lemma auto_id_inj: "ascii ''auto-'' @ str_nat (a + 1) = ascii ''auto-'' @ str_nat (b + 1) \<Longrightarrow> a = b"
  using str_nat_inj [of "a + 1" "b + 1"] by simp

lemma build_report_observer_buckets:
  assumes "build_report fmt today days c (Some fs) = Inr (md, payload)"
  shows "\<exists>bs. payload = summary_payload today days bs \<and> list_all observer_bucket bs"
proof -
  from assms obtain g where g: "accumulate c fs = Inr g"
    by (cases "accumulate c fs") (simp_all add: build_report_def bind_err_def)
  show ?thesis
  proof (cases "g = []")
    case True
    with assms g have "payload = summary_payload today days []"
      by (simp add: build_report_def Let_def bind_err_def)
    then show ?thesis by (intro exI [of _ "[]"]) simp
  next
    case False
    define rows where
      "rows = map (\<lambda>(key, values). (key, values, spec_rates values)) (sort_key fst g)"
    have all: "list_all observer_bucket (map (\<lambda>(key, values, r). bucket_json key values r) rs)" for rs
      by (induction rs) (auto simp: observer_bucket_json)
    have "build_report fmt today days c (Some fs) =
        Inr (py_join newline
               ([ascii ''# Context Strategy Report ('' @ today @ ascii '')'', []]
                @ concat (map (\<lambda>(key, values, r). section_lines fmt key r) rows)) @ newline,
             summary_payload today days (map (\<lambda>(key, values, r). bucket_json key values r) rows))"
      unfolding build_report_def Let_def option.case g build_report_rows
      using False by (simp add: bind_err_def rows_def)
    with assms have "payload = summary_payload today days (map (\<lambda>(key, values, r). bucket_json key values r) rows)"
      by simp
    with all [of rows] show ?thesis by blast
  qed
qed

text \<open>
  Claim C7. For every summary whose buckets have the shape the observer writes, and every
  TTL, the override build returns a document; the bucket at position \<open>k\<close> (which would
  get the id \<open>auto-(k+1)\<close>) has no entry when its \<open>samples.plans\<close> is below 20 and exactly
  one entry when it is at least 20, and there are no other entries.
\<close>

theorem sample_size_floor:
  assumes "py_get summary (ascii ''buckets'') = JList bs"
    and "list_all observer_bucket bs"
  shows "\<exists>doc. build_overrides rt summary ttl_hours now = Inr doc
     \<and> length (entries doc) = length (filter (\<lambda>b. 20 \<le> sample_plans b) bs)
     \<and> (\<forall>k < length bs.
           length (filter (\<lambda>e. oe_id e = ascii ''auto-'' @ str_nat (k + 1)) (entries doc))
             = (if sample_plans (bs ! k) < 20 then 0 else 1))"
proof -
  define ex where "ex = now + max 1 ttl_hours * 60 * 60 * 1000"
  from override_entries_ids [OF assms(2), of rt now ex 0] obtain es where
    es: "override_entries rt now ex 0 bs = Inr es"
    and ids: "map oe_id es = map (\<lambda>j. ascii ''auto-'' @ str_nat (j + 1)) (qualifying 0 bs)"
    by blast
  have doc: "build_overrides rt summary ttl_hours now
      = Inr \<lparr> version = 1, generatedAt = now, entries = es \<rparr>"
    using es by (simp add: build_overrides_def assms(1) Let_def ex_def bind_err_def)
  have len: "length es = length (filter (\<lambda>b. 20 \<le> sample_plans b) bs)"
  proof -
    have "length es = length (map oe_id es)" by simp
    also have "\<dots> = length (qualifying 0 bs)" unfolding ids by simp
    finally show ?thesis by (simp add: qualifying_length)
  qed
  have cnt: "length (filter (\<lambda>e. oe_id e = ascii ''auto-'' @ str_nat (k + 1)) es)
             = (if sample_plans (bs ! k) < 20 then 0 else 1)" if k: "k < length bs" for k
  proof -
    have "length (filter (\<lambda>e. oe_id e = ascii ''auto-'' @ str_nat (k + 1)) es)
        = length (filter (\<lambda>y. y = ascii ''auto-'' @ str_nat (k + 1)) (map oe_id es))"
      by (simp add: filter_map comp_def)
    also have "\<dots> = (if k \<in> set (qualifying 0 bs) then 1 else 0)"
      unfolding ids
      by (rule count_distinct_inj [OF qualifying_distinct]) (rule auto_id_inj)
    also have "\<dots> = (if sample_plans (bs ! k) < 20 then 0 else 1)"
      using qualifying_mem [OF k, of 0] by auto
    finally show ?thesis .
  qed
  show ?thesis using doc len cnt by simp
qed

theorem sample_size_floor_witness:
  "build_overrides no_parse
      [(ascii ''buckets'', JList [JDict [(ascii ''model'', JStr (ascii ''m'')), (ascii ''taskClass'', JStr (ascii ''t'')),
          (ascii ''floorUnmetRate'', JFloat (Fin 0)), (ascii ''injectionDroppedRate'', JFloat (Fin (1 / 20))),
          (ascii ''avgInjectionTokens'', JFloat (Fin 100)), (ascii ''zoneAdaptationMoveRatio'', JFloat (Fin 0)),
          (ascii ''verificationPassRate'', JFloat (Fin 1)), (ascii ''qualityProxy'', JFloat (Fin (19 / 20))),
          (ascii ''samples'', JDict [(ascii ''plans'', JInt 19), (ascii ''verification'', JInt 30)])]])] 168 1000
     = Inr \<lparr> version = 1, generatedAt = 1000, entries = [] \<rparr>
   \<and> build_overrides no_parse
      [(ascii ''buckets'', JList [JDict [(ascii ''model'', JStr (ascii ''m'')), (ascii ''taskClass'', JStr (ascii ''t'')),
          (ascii ''floorUnmetRate'', JFloat (Fin 0)), (ascii ''injectionDroppedRate'', JFloat (Fin (1 / 20))),
          (ascii ''avgInjectionTokens'', JFloat (Fin 100)), (ascii ''zoneAdaptationMoveRatio'', JFloat (Fin 0)),
          (ascii ''verificationPassRate'', JFloat (Fin 1)), (ascii ''qualityProxy'', JFloat (Fin (19 / 20))),
          (ascii ''samples'', JDict [(ascii ''plans'', JInt 20), (ascii ''verification'', JInt 30)])]])] 168 1000
     = Inr \<lparr> version = 1, generatedAt = 1000, entries =
          [\<lparr> oe_id = ascii ''auto-1'', oe_model = ascii ''m'', oe_taskClass = ascii ''t'', oe_arm = ascii ''passthrough'',
             oe_expiresAt = 604801000, oe_updatedAt = 1000, oe_source = ascii ''tuner'' \<rparr>] \<rparr>"
proof -
  have s1: "str_nat (Suc 0) = ascii ''1''"
    by (subst str_nat.simps) (simp add: ascii_def)
  have e19: "build_overrides no_parse
      [(ascii ''buckets'', JList [JDict [(ascii ''model'', JStr (ascii ''m'')), (ascii ''taskClass'', JStr (ascii ''t'')),
          (ascii ''floorUnmetRate'', JFloat (Fin 0)), (ascii ''injectionDroppedRate'', JFloat (Fin (1 / 20))),
          (ascii ''avgInjectionTokens'', JFloat (Fin 100)), (ascii ''zoneAdaptationMoveRatio'', JFloat (Fin 0)),
          (ascii ''verificationPassRate'', JFloat (Fin 1)), (ascii ''qualityProxy'', JFloat (Fin (19 / 20))),
          (ascii ''samples'', JDict [(ascii ''plans'', JInt 19), (ascii ''verification'', JInt 30)])]])] 168 1000
     = Inr \<lparr> version = 1, generatedAt = 1000, entries = [] \<rparr>"
    by (simp add: build_overrides_def py_get_def py_get_default_def bucket_plans_def py_or_def
        bind_err_def)
  have ca: "choose_arm no_parse [(ascii ''model'', JStr (ascii ''m'')), (ascii ''taskClass'', JStr (ascii ''t'')),
          (ascii ''floorUnmetRate'', JFloat (Fin 0)), (ascii ''injectionDroppedRate'', JFloat (Fin (1 / 20))),
          (ascii ''avgInjectionTokens'', JFloat (Fin 100)), (ascii ''zoneAdaptationMoveRatio'', JFloat (Fin 0)),
          (ascii ''verificationPassRate'', JFloat (Fin 1)), (ascii ''qualityProxy'', JFloat (Fin (19 / 20))),
          (ascii ''samples'', JDict [(ascii ''plans'', JInt 20), (ascii ''verification'', JInt 30)])] = Inr (ascii ''passthrough'')"
    by (simp add: choose_arm_def py_get_default_def bind_err_def double_defs)
  have wl: "wildcard_label no_parse [(ascii ''model'', JStr (ascii ''m'')), (ascii ''taskClass'', JStr (ascii ''t'')),
          (ascii ''floorUnmetRate'', JFloat (Fin 0)), (ascii ''injectionDroppedRate'', JFloat (Fin (1 / 20))),
          (ascii ''avgInjectionTokens'', JFloat (Fin 100)), (ascii ''zoneAdaptationMoveRatio'', JFloat (Fin 0)),
          (ascii ''verificationPassRate'', JFloat (Fin 1)), (ascii ''qualityProxy'', JFloat (Fin (19 / 20))),
          (ascii ''samples'', JDict [(ascii ''plans'', JInt 20), (ascii ''verification'', JInt 30)])] (ascii ''model'') = ascii ''m''"
    "wildcard_label no_parse [(ascii ''model'', JStr (ascii ''m'')), (ascii ''taskClass'', JStr (ascii ''t'')),
          (ascii ''floorUnmetRate'', JFloat (Fin 0)), (ascii ''injectionDroppedRate'', JFloat (Fin (1 / 20))),
          (ascii ''avgInjectionTokens'', JFloat (Fin 100)), (ascii ''zoneAdaptationMoveRatio'', JFloat (Fin 0)),
          (ascii ''verificationPassRate'', JFloat (Fin 1)), (ascii ''qualityProxy'', JFloat (Fin (19 / 20))),
          (ascii ''samples'', JDict [(ascii ''plans'', JInt 20), (ascii ''verification'', JInt 30)])] (ascii ''taskClass'') = ascii ''t''"
    by (simp_all add: wildcard_label_def py_get_default_def strip_def is_space_def ascii_def)
  have bp: "bucket_plans no_parse [(ascii ''model'', JStr (ascii ''m'')), (ascii ''taskClass'', JStr (ascii ''t'')),
          (ascii ''floorUnmetRate'', JFloat (Fin 0)), (ascii ''injectionDroppedRate'', JFloat (Fin (1 / 20))),
          (ascii ''avgInjectionTokens'', JFloat (Fin 100)), (ascii ''zoneAdaptationMoveRatio'', JFloat (Fin 0)),
          (ascii ''verificationPassRate'', JFloat (Fin 1)), (ascii ''qualityProxy'', JFloat (Fin (19 / 20))),
          (ascii ''samples'', JDict [(ascii ''plans'', JInt 20), (ascii ''verification'', JInt 30)])] = Inr 20"
    by (simp add: bucket_plans_def py_get_def py_get_default_def py_or_def)
  have p: "py_get [(ascii ''buckets'', JList [JDict [(ascii ''model'', JStr (ascii ''m'')), (ascii ''taskClass'', JStr (ascii ''t'')),
          (ascii ''floorUnmetRate'', JFloat (Fin 0)), (ascii ''injectionDroppedRate'', JFloat (Fin (1 / 20))),
          (ascii ''avgInjectionTokens'', JFloat (Fin 100)), (ascii ''zoneAdaptationMoveRatio'', JFloat (Fin 0)),
          (ascii ''verificationPassRate'', JFloat (Fin 1)), (ascii ''qualityProxy'', JFloat (Fin (19 / 20))),
          (ascii ''samples'', JDict [(ascii ''plans'', JInt 20), (ascii ''verification'', JInt 30)])]])] (ascii ''buckets'')
      = JList [JDict [(ascii ''model'', JStr (ascii ''m'')), (ascii ''taskClass'', JStr (ascii ''t'')),
          (ascii ''floorUnmetRate'', JFloat (Fin 0)), (ascii ''injectionDroppedRate'', JFloat (Fin (1 / 20))),
          (ascii ''avgInjectionTokens'', JFloat (Fin 100)), (ascii ''zoneAdaptationMoveRatio'', JFloat (Fin 0)),
          (ascii ''verificationPassRate'', JFloat (Fin 1)), (ascii ''qualityProxy'', JFloat (Fin (19 / 20))),
          (ascii ''samples'', JDict [(ascii ''plans'', JInt 20), (ascii ''verification'', JInt 30)])]]"
    by (simp add: py_get_def)
  have ob: "list_all observer_bucket [JDict [(ascii ''model'', JStr (ascii ''m'')), (ascii ''taskClass'', JStr (ascii ''t'')),
          (ascii ''floorUnmetRate'', JFloat (Fin 0)), (ascii ''injectionDroppedRate'', JFloat (Fin (1 / 20))),
          (ascii ''avgInjectionTokens'', JFloat (Fin 100)), (ascii ''zoneAdaptationMoveRatio'', JFloat (Fin 0)),
          (ascii ''verificationPassRate'', JFloat (Fin 1)), (ascii ''qualityProxy'', JFloat (Fin (19 / 20))),
          (ascii ''samples'', JDict [(ascii ''plans'', JInt 20), (ascii ''verification'', JInt 30)])]]"
    by (simp add: observer_bucket_def py_get_def is_jstr_def is_jfloat_def is_jint_def)
  from sample_size_floor [OF p ob, of no_parse 168 1000] obtain doc where
    doc: "build_overrides no_parse [(ascii ''buckets'', JList [JDict [(ascii ''model'', JStr (ascii ''m'')), (ascii ''taskClass'', JStr (ascii ''t'')),
          (ascii ''floorUnmetRate'', JFloat (Fin 0)), (ascii ''injectionDroppedRate'', JFloat (Fin (1 / 20))),
          (ascii ''avgInjectionTokens'', JFloat (Fin 100)), (ascii ''zoneAdaptationMoveRatio'', JFloat (Fin 0)),
          (ascii ''verificationPassRate'', JFloat (Fin 1)), (ascii ''qualityProxy'', JFloat (Fin (19 / 20))),
          (ascii ''samples'', JDict [(ascii ''plans'', JInt 20), (ascii ''verification'', JInt 30)])]])] 168 1000 = Inr doc"
    and len: "length (entries doc) = length (filter (\<lambda>b. 20 \<le> sample_plans b) [JDict [(ascii ''model'', JStr (ascii ''m'')), (ascii ''taskClass'', JStr (ascii ''t'')),
          (ascii ''floorUnmetRate'', JFloat (Fin 0)), (ascii ''injectionDroppedRate'', JFloat (Fin (1 / 20))),
          (ascii ''avgInjectionTokens'', JFloat (Fin 100)), (ascii ''zoneAdaptationMoveRatio'', JFloat (Fin 0)),
          (ascii ''verificationPassRate'', JFloat (Fin 1)), (ascii ''qualityProxy'', JFloat (Fin (19 / 20))),
          (ascii ''samples'', JDict [(ascii ''plans'', JInt 20), (ascii ''verification'', JInt 30)])]])"
    by blast
  have "doc = \<lparr> version = 1, generatedAt = 1000, entries =
          [\<lparr> oe_id = ascii ''auto-1'', oe_model = ascii ''m'', oe_taskClass = ascii ''t'', oe_arm = ascii ''passthrough'',
             oe_expiresAt = 604801000, oe_updatedAt = 1000, oe_source = ascii ''tuner'' \<rparr>] \<rparr>"
    using doc unfolding build_overrides_def Let_def
    by (simp add: py_get_def bp ca wl s1 bind_err_def) (simp add: ascii_def)
  with doc e19 show ?thesis by simp
qed

section \<open>Malformed summary documents\<close>

text \<open>
  A file that cannot be read or parsed, a top level that is not a mapping, and a
  \<open>buckets\<close> field that is not a list all give an override document with no entries.
\<close>

lemma malformed_document_recovered:
  "build_overrides rt (load_json None) ttl_hours now
     = Inr \<lparr> version = 1, generatedAt = now, entries = [] \<rparr>"
  "\<forall>d. v \<noteq> JDict d \<Longrightarrow>
   build_overrides rt (load_json (Some v)) ttl_hours now
     = Inr \<lparr> version = 1, generatedAt = now, entries = [] \<rparr>"
  "\<forall>bs. py_get summary (ascii ''buckets'') \<noteq> JList bs \<Longrightarrow>
   build_overrides rt summary ttl_hours now
     = Inr \<lparr> version = 1, generatedAt = now, entries = [] \<rparr>"
proof -
  have empty: "build_overrides rt [] ttl_hours now
     = Inr \<lparr> version = 1, generatedAt = now, entries = [] \<rparr>"
    by (simp add: build_overrides_def py_get_def bind_err_def)
  show "build_overrides rt (load_json None) ttl_hours now
     = Inr \<lparr> version = 1, generatedAt = now, entries = [] \<rparr>"
    using empty by (simp add: load_json_def)
  show "build_overrides rt (load_json (Some v)) ttl_hours now
     = Inr \<lparr> version = 1, generatedAt = now, entries = [] \<rparr>" if "\<forall>d. v \<noteq> JDict d"
    using that empty by (cases v) (auto simp: load_json_def)
  show "build_overrides rt summary ttl_hours now
     = Inr \<lparr> version = 1, generatedAt = now, entries = [] \<rparr>" if "\<forall>bs. py_get summary (ascii ''buckets'') \<noteq> JList bs"
    using that by (cases "py_get summary (ascii ''buckets'')") (auto simp: build_overrides_def bind_err_def)
qed

text \<open>
  Claim C8 at the summary document
  \<^verbatim>\<open>{"buckets": [{"samples": {"plans": 20}, "qualityProxy": null}]}\<close>: the bucket passes
  the sample-size floor, \<^verbatim>\<open>choose_arm\<close> calls \<^verbatim>\<open>float(None)\<close>, and the override build ends
  with \<^verbatim>\<open>TypeError\<close>.
\<close>

theorem malformed_metric_is_fatal:
  "build_overrides rt
     (load_json (Some (JDict [(ascii ''buckets'', JList
        [JDict [(ascii ''samples'', JDict [(ascii ''plans'', JInt 20)]), (ascii ''qualityProxy'', JNull)]])])))
     ttl_hours now
   = Inl TypeError"
  by (simp add: build_overrides_def load_json_def py_get_def py_get_default_def bucket_plans_def
      py_or_def choose_arm_def wildcard_label_def bind_err_def Let_def)

end
